theory Spec2Isabelle
  imports Complex_Main "HOL-Library.Multiset"
begin

section \<open>Entity model (types/invoice.ts)\<close>

text \<open>
  The TypeScript interfaces are erased at run time and a gateway response is JSON that
  nobody checks against them (the store itself tests \<open>!updatedInvoice.id\<close>), so every
  property of an Invoice object is modelled as possibly absent: \<open>None\<close> is a key that the
  object does not carry. JavaScript numbers that the store only copies are \<open>real\<close>.
\<close>

datatype invoice_status = Processing | Processed | Failed

datatype ocr_engine = Document_ai | Tesseract

datatype vote = Upvote | Downvote

datatype feedback_vote = Vote_upvote | Vote_downvote | Vote_remove

record line_item =
  description :: string
  quantity :: real
  unitPrice :: real
  totalPrice :: real

record field_feedback =
  fb_vote :: vote
  fb_userId :: string
  fb_timestamp :: string

record invoice =
  invoice_id :: "string option"
  userId :: "string option"
  fileName :: "string option"
  storageUrl :: "string option"
  status :: "invoice_status option"
  invoiceNumber :: "string option"
  invoiceDate :: "string option"
  dueDate :: "string option"
  vendorName :: "string option"
  supplierName :: "string option"
  supplierRuc :: "string option"
  totalAmount :: "real option"
  taxAmount :: "real option"
  subtotal :: "real option"
  currency :: "string option"
  lineItems :: "line_item list option"
  ocrEngine :: "ocr_engine option"
  ocrConfidence :: "real option"
  fieldFeedback :: "(string \<rightharpoonup> field_feedback) option"
  uploadedAt :: "string option"
  processedAt :: "string option"
  errorMessage :: "string option"

record invoice_response =
  ack_invoiceId :: string
  ack_fileName :: string
  ack_status :: string
  ack_message :: "string option"

record invoice_list_response =
  resp_invoices :: "invoice list"
  resp_total :: int

datatype sort_by = By_date | By_amount | By_vendor

datatype sort_order = Asc | Desc

record invoice_query =
  sortBy :: "sort_by option"
  order :: "sort_order option"
  page :: "int option"
  limit :: "int option"

record feedback_request =
  fieldName :: string
  req_vote :: feedback_vote

record feedback_response =
  success :: bool
  fb_invoice :: invoice

datatype upload_file = File string "nat list"

section \<open>Remote gateway (services/invoice.service.ts)\<close>

text \<open>
  A rejected promise is a thrown value of which the store reads only \<open>message\<close>. The
  service is an external collaborator: its answers are parameters of every store action.
  The feedback endpoint may answer with an empty body, \<open>None\<close>.
\<close>

datatype js_error = Thrown (message: "string option")

record gateway =
  svc_uploadInvoice :: "upload_file \<Rightarrow> js_error + invoice_response"
  svc_getInvoices :: "invoice_query option \<Rightarrow> js_error + invoice_list_response"
  svc_getInvoiceById :: "string \<Rightarrow> js_error + invoice"
  svc_getDownloadUrl :: "string \<Rightarrow> js_error + string"
  svc_submitFieldFeedback :: "string \<Rightarrow> feedback_request \<Rightarrow> js_error + invoice option"

datatype request =
    Req_uploadInvoice upload_file
  | Req_getInvoices "invoice_query option"
  | Req_getInvoiceById string
  | Req_getDownloadUrl string
  | Req_submitFieldFeedback string feedback_request

section \<open>Invoice store (stores/invoices.ts)\<close>

text \<open>
  The five refs of the store. \<open>requests\<close> is not a ref of the source: it logs, in order,
  the calls handed to \<open>invoiceService\<close>, so that what an action dispatches can be stated.
\<close>

record store =
  invoices :: "invoice list"
  currentInvoice :: "invoice option"
  loading :: bool
  error :: "string option"
  total :: int
  requests :: "request list"

text \<open>\<open>err.message || fallback\<close>: an absent or empty message is falsy.\<close>

definition messageOr :: "js_error \<Rightarrow> string \<Rightarrow> string" where
  "messageOr err fallback =
     (case message err of
        None \<Rightarrow> fallback
      | Some m \<Rightarrow> if m = [] then fallback else m)"

definition dispatch :: "request \<Rightarrow> store \<Rightarrow> store" where
  "dispatch r s = s\<lparr>requests := requests s @ [r]\<rparr>"

subsection \<open>Getters\<close>

text \<open>
  \<open>new Date(a.uploadedAt).getTime()\<close> belongs to the JavaScript runtime; the parser is the
  parameter \<open>getTime\<close>, with \<open>None\<close> for NaN (an invalid date). An absent \<open>uploadedAt\<close> is
  \<open>new Date(undefined)\<close>, invalid as well.
\<close>

definition timeOf :: "(string \<Rightarrow> int option) \<Rightarrow> invoice \<Rightarrow> int option" where
  "timeOf getTime a = (case uploadedAt a of None \<Rightarrow> None | Some d \<Rightarrow> getTime d)"

text \<open>The comparator \<open>(a, b) => dateB - dateA\<close>; NaN when either side is NaN.\<close>

definition compareFn :: "(string \<Rightarrow> int option) \<Rightarrow> invoice \<Rightarrow> invoice \<Rightarrow> int option" where
  "compareFn getTime a b =
     (case timeOf getTime a of
        None \<Rightarrow> None
      | Some dateA \<Rightarrow>
          (case timeOf getTime b of
             None \<Rightarrow> None
           | Some dateB \<Rightarrow> Some (dateB - dateA)))"

text \<open>
  \<open>Array.prototype.sort\<close> with a comparator is stable, and reads a NaN answer as \<open>+0\<close>.
  With a consistent comparator its result is the stable sorted order, which insertion
  from the right computes: \<open>x\<close> goes after \<open>y\<close> only when the comparator puts \<open>y\<close>
  strictly first.
\<close>

definition comesAfter :: "int option \<Rightarrow> bool" where
  "comesAfter c = (case c of None \<Rightarrow> False | Some v \<Rightarrow> 0 < v)"

fun insertBy :: "('a \<Rightarrow> 'a \<Rightarrow> int option) \<Rightarrow> 'a \<Rightarrow> 'a list \<Rightarrow> 'a list" where
  "insertBy cmp x [] = [x]"
| "insertBy cmp x (y # ys) =
     (if comesAfter (cmp x y) then y # insertBy cmp x ys else x # y # ys)"

definition sortBy_cmp :: "('a \<Rightarrow> 'a \<Rightarrow> int option) \<Rightarrow> 'a list \<Rightarrow> 'a list" where
  "sortBy_cmp cmp xs = foldr (insertBy cmp) xs []"

definition sortedInvoices :: "(string \<Rightarrow> int option) \<Rightarrow> store \<Rightarrow> invoice list" where
  "sortedInvoices getTime s = sortBy_cmp (compareFn getTime) (invoices s)"

definition totalInvoices :: "store \<Rightarrow> int" where
  "totalInvoices s = total s"

definition processingInvoices :: "store \<Rightarrow> nat" where
  "processingInvoices s = length (filter (\<lambda>i. status i = Some Processing) (invoices s))"

definition processedInvoices :: "store \<Rightarrow> nat" where
  "processedInvoices s = length (filter (\<lambda>i. status i = Some Processed) (invoices s))"

definition failedInvoices :: "store \<Rightarrow> nat" where
  "failedInvoices s = length (filter (\<lambda>i. status i = Some Failed) (invoices s))"

subsection \<open>Actions\<close>

text \<open>
  Each action runs up to its \<open>await\<close>, hands a request to the service, and resumes with the
  answer. \<open>beginAction\<close> is the prefix \<open>loading.value = true; error.value = null\<close>; the
  \<open>_pending\<close> state of an action is the store at its suspension point.
\<close>

definition beginAction :: "store \<Rightarrow> store" where
  "beginAction s = s\<lparr>loading := True, error := None\<rparr>"

definition fetchInvoices_pending :: "invoice_query option \<Rightarrow> store \<Rightarrow> store" where
  "fetchInvoices_pending query s = dispatch (Req_getInvoices query) (beginAction s)"

definition fetchInvoices ::
  "gateway \<Rightarrow> invoice_query option \<Rightarrow> store \<Rightarrow> (js_error + unit) \<times> store" where
  "fetchInvoices gw query s =
     (let s1 = fetchInvoices_pending query s in
      case svc_getInvoices gw query of
        Inr response \<Rightarrow>
          (Inr (), s1\<lparr>invoices := resp_invoices response, total := resp_total response,
                       loading := False\<rparr>)
      | Inl err \<Rightarrow>
          (Inl err, s1\<lparr>error := Some (messageOr err ''Failed to fetch invoices''),
                        loading := False\<rparr>))"

definition uploadInvoice_pending :: "upload_file \<Rightarrow> store \<Rightarrow> store" where
  "uploadInvoice_pending f s = dispatch (Req_uploadInvoice f) (beginAction s)"

definition uploadInvoice ::
  "gateway \<Rightarrow> upload_file \<Rightarrow> store \<Rightarrow> (js_error + invoice_response) \<times> store" where
  "uploadInvoice gw f s =
     (let s1 = uploadInvoice_pending f s in
      case svc_uploadInvoice gw f of
        Inl err \<Rightarrow>
          (Inl err, s1\<lparr>error := Some (messageOr err ''Failed to upload invoice''),
                        loading := False\<rparr>)
      | Inr response \<Rightarrow>
          (case fetchInvoices gw None s1 of
             (Inl err, s2) \<Rightarrow>
               (Inl err, s2\<lparr>error := Some (messageOr err ''Failed to upload invoice''),
                             loading := False\<rparr>)
           | (Inr u, s2) \<Rightarrow> (Inr response, s2\<lparr>loading := False\<rparr>)))"

definition fetchInvoiceDetail_pending :: "string \<Rightarrow> store \<Rightarrow> store" where
  "fetchInvoiceDetail_pending invoiceId s = dispatch (Req_getInvoiceById invoiceId) (beginAction s)"

definition fetchInvoiceDetail ::
  "gateway \<Rightarrow> string \<Rightarrow> store \<Rightarrow> (js_error + invoice) \<times> store" where
  "fetchInvoiceDetail gw invoiceId s =
     (let s1 = fetchInvoiceDetail_pending invoiceId s in
      case svc_getInvoiceById gw invoiceId of
        Inr fetched \<Rightarrow> (Inr fetched, s1\<lparr>currentInvoice := Some fetched, loading := False\<rparr>)
      | Inl err \<Rightarrow>
          (Inl err, s1\<lparr>error := Some (messageOr err ''Failed to fetch invoice details''),
                        loading := False\<rparr>))"

definition getDownloadUrl_pending :: "string \<Rightarrow> store \<Rightarrow> store" where
  "getDownloadUrl_pending invoiceId s = dispatch (Req_getDownloadUrl invoiceId) (beginAction s)"

definition getDownloadUrl ::
  "gateway \<Rightarrow> string \<Rightarrow> store \<Rightarrow> (js_error + string) \<times> store" where
  "getDownloadUrl gw invoiceId s =
     (let s1 = getDownloadUrl_pending invoiceId s in
      case svc_getDownloadUrl gw invoiceId of
        Inr url \<Rightarrow> (Inr url, s1\<lparr>loading := False\<rparr>)
      | Inl err \<Rightarrow>
          (Inl err, s1\<lparr>error := Some (messageOr err ''Failed to get download URL''),
                        loading := False\<rparr>))"

definition clearError :: "store \<Rightarrow> store" where
  "clearError s = s\<lparr>error := None\<rparr>"

definition clearCurrentInvoice :: "store \<Rightarrow> store" where
  "clearCurrentInvoice s = s\<lparr>currentInvoice := None\<rparr>"

subsection \<open>Feedback reconciler\<close>

text \<open>Object spread, one property: the later object wins where it carries the key.\<close>

definition spread :: "'a option \<Rightarrow> 'a option \<Rightarrow> 'a option" where
  "spread local updated = (case updated of None \<Rightarrow> local | Some v \<Rightarrow> Some v)"

text \<open>
  The object literal
  \<open>{ ...local, ...updatedInvoice, fieldFeedback: updatedInvoice.fieldFeedback || {} }\<close>.
\<close>

definition mergeUpdated :: "invoice \<Rightarrow> invoice \<Rightarrow> invoice" where
  "mergeUpdated local updatedInvoice =
     \<lparr> invoice_id = spread (invoice_id local) (invoice_id updatedInvoice),
       userId = spread (userId local) (userId updatedInvoice),
       fileName = spread (fileName local) (fileName updatedInvoice),
       storageUrl = spread (storageUrl local) (storageUrl updatedInvoice),
       status = spread (status local) (status updatedInvoice),
       invoiceNumber = spread (invoiceNumber local) (invoiceNumber updatedInvoice),
       invoiceDate = spread (invoiceDate local) (invoiceDate updatedInvoice),
       dueDate = spread (dueDate local) (dueDate updatedInvoice),
       vendorName = spread (vendorName local) (vendorName updatedInvoice),
       supplierName = spread (supplierName local) (supplierName updatedInvoice),
       supplierRuc = spread (supplierRuc local) (supplierRuc updatedInvoice),
       totalAmount = spread (totalAmount local) (totalAmount updatedInvoice),
       taxAmount = spread (taxAmount local) (taxAmount updatedInvoice),
       subtotal = spread (subtotal local) (subtotal updatedInvoice),
       currency = spread (currency local) (currency updatedInvoice),
       lineItems = spread (lineItems local) (lineItems updatedInvoice),
       ocrEngine = spread (ocrEngine local) (ocrEngine updatedInvoice),
       ocrConfidence = spread (ocrConfidence local) (ocrConfidence updatedInvoice),
       fieldFeedback =
         Some (case fieldFeedback updatedInvoice of None \<Rightarrow> Map.empty | Some m \<Rightarrow> m),
       uploadedAt = spread (uploadedAt local) (uploadedAt updatedInvoice),
       processedAt = spread (processedAt local) (processedAt updatedInvoice),
       errorMessage = spread (errorMessage local) (errorMessage updatedInvoice) \<rparr>"

text \<open>\<open>Array.prototype.findIndex\<close>: the first index that satisfies, \<open>None\<close> for \<open>-1\<close>.\<close>

fun findIndex :: "('a \<Rightarrow> bool) \<Rightarrow> 'a list \<Rightarrow> nat option" where
  "findIndex p [] = None"
| "findIndex p (x # xs) =
     (if p x then Some 0 else map_option Suc (findIndex p xs))"

text \<open>\<open>!updatedInvoice || !updatedInvoice.id\<close>: the body or its id is falsy.\<close>

definition invalidResponse :: "invoice option \<Rightarrow> bool" where
  "invalidResponse r =
     (case r of
        None \<Rightarrow> True
      | Some updatedInvoice \<Rightarrow>
          (case invoice_id updatedInvoice of None \<Rightarrow> True | Some i \<Rightarrow> i = []))"

definition updateCurrent :: "string \<Rightarrow> invoice \<Rightarrow> store \<Rightarrow> store" where
  "updateCurrent invoiceId updatedInvoice s =
     (case currentInvoice s of
        None \<Rightarrow> s
      | Some cur \<Rightarrow>
          if invoice_id cur = Some invoiceId
          then s\<lparr>currentInvoice := Some (mergeUpdated cur updatedInvoice)\<rparr>
          else s)"

definition updateInList :: "string \<Rightarrow> invoice \<Rightarrow> store \<Rightarrow> store" where
  "updateInList invoiceId updatedInvoice s =
     (case findIndex (\<lambda>i. invoice_id i = Some invoiceId) (invoices s) of
        None \<Rightarrow> s
      | Some index \<Rightarrow>
          s\<lparr>invoices := (invoices s)[index := mergeUpdated (invoices s ! index) updatedInvoice]\<rparr>)"

definition submitFieldFeedback_pending :: "string \<Rightarrow> feedback_request \<Rightarrow> store \<Rightarrow> store" where
  "submitFieldFeedback_pending invoiceId req s =
     dispatch (Req_submitFieldFeedback invoiceId req) (s\<lparr>error := None\<rparr>)"

definition submitFieldFeedback ::
  "gateway \<Rightarrow> string \<Rightarrow> string \<Rightarrow> feedback_vote \<Rightarrow> store \<Rightarrow> (js_error + feedback_response) \<times> store"
  where
  "submitFieldFeedback gw invoiceId fname v s =
     (let req = \<lparr>fieldName = fname, req_vote = v\<rparr>;
          s1 = submitFieldFeedback_pending invoiceId req s in
      case svc_submitFieldFeedback gw invoiceId req of
        Inl err \<Rightarrow> (Inl err, s1\<lparr>error := Some (messageOr err ''Failed to submit feedback'')\<rparr>)
      | Inr r \<Rightarrow>
          if invalidResponse r
          then (let err = Thrown (Some ''Invalid response from server'') in
                (Inl err, s1\<lparr>error := Some (messageOr err ''Failed to submit feedback'')\<rparr>))
          else (let updatedInvoice = the r in
                (Inr \<lparr>success = True, fb_invoice = updatedInvoice\<rparr>,
                 updateInList invoiceId updatedInvoice
                   (updateCurrent invoiceId updatedInvoice s1))))"

section \<open>Status invariant (spec 4.2)\<close>

text \<open>
  \<open>errorMessage\<close> is set exactly when the status is \<open>failed\<close>, \<open>processedAt\<close> exactly when the
  status is not \<open>processing\<close>; "set" is: the object carries the key.
\<close>

definition invoice_ok :: "invoice \<Rightarrow> bool" where
  "invoice_ok i \<longleftrightarrow>
     (status i = Some Failed \<longleftrightarrow> errorMessage i \<noteq> None) \<and>
     (status i \<noteq> Some Processing \<longleftrightarrow> processedAt i \<noteq> None)"

definition store_ok :: "store \<Rightarrow> bool" where
  "store_ok s \<longleftrightarrow>
     list_all invoice_ok (invoices s) \<and>
     (case currentInvoice s of None \<Rightarrow> True | Some cur \<Rightarrow> invoice_ok cur)"

text \<open>The answers of the gateway that an action copies into the cache.\<close>

definition list_answer_ok :: "js_error + invoice_list_response \<Rightarrow> bool" where
  "list_answer_ok r = (case r of Inl err \<Rightarrow> True | Inr response \<Rightarrow> list_all invoice_ok (resp_invoices response))"

definition detail_answer_ok :: "js_error + invoice \<Rightarrow> bool" where
  "detail_answer_ok r = (case r of Inl err \<Rightarrow> True | Inr fetched \<Rightarrow> invoice_ok fetched)"

text \<open>
  The cached copies that a feedback answer for \<open>invoiceId\<close> is merged into, and the steps of
  the status machine: a copy keeps its status, or leaves \<open>processing\<close>.
\<close>

definition heldUnder :: "string \<Rightarrow> store \<Rightarrow> invoice list" where
  "heldUnder invoiceId s =
     (case currentInvoice s of
        None \<Rightarrow> []
      | Some cur \<Rightarrow> if invoice_id cur = Some invoiceId then [cur] else [])
     @ filter (\<lambda>i. invoice_id i = Some invoiceId) (invoices s)"

definition statusStep :: "invoice \<Rightarrow> invoice \<Rightarrow> bool" where
  "statusStep local updatedInvoice \<longleftrightarrow>
     status updatedInvoice \<noteq> None \<and>
     (status local = status updatedInvoice \<or> status local = Some Processing)"

definition feedback_answer_ok :: "string \<Rightarrow> store \<Rightarrow> js_error + invoice option \<Rightarrow> bool" where
  "feedback_answer_ok invoiceId s r =
     (case r of
        Inl err \<Rightarrow> True
      | Inr None \<Rightarrow> True
      | Inr (Some updatedInvoice) \<Rightarrow>
          invoice_ok updatedInvoice \<and>
          list_all (\<lambda>local. statusStep local updatedInvoice) (heldUnder invoiceId s))"

section \<open>A date parser and sample data\<close>

text \<open>
  One instance of the \<open>getTime\<close> parameter: the date-only form \<open>YYYY-MM-DD\<close> of the ECMAScript
  date-time string format, read as UTC midnight in milliseconds since the epoch, NaN for
  any other string.
\<close>

definition digitVal :: "char \<Rightarrow> int option" where
  "digitVal c =
     (if of_char (CHR ''0'') \<le> (of_char c :: nat) \<and> (of_char c :: nat) \<le> of_char (CHR ''9'')
      then Some (int (of_char c) - 48) else None)"

fun digitsVal :: "int \<Rightarrow> string \<Rightarrow> int option" where
  "digitsVal acc [] = Some acc"
| "digitsVal acc (c # cs) =
     (case digitVal c of None \<Rightarrow> None | Some d \<Rightarrow> digitsVal (10 * acc + d) cs)"

definition daysFromCivil :: "int \<Rightarrow> int \<Rightarrow> int \<Rightarrow> int" where
  "daysFromCivil y m d =
     (let y1 = (if m \<le> 2 then y - 1 else y);
          era = y1 div 400;
          yoe = y1 - era * 400;
          doy = (153 * (if 2 < m then m - 3 else m + 9) + 2) div 5 + d - 1;
          doe = yoe * 365 + yoe div 4 - yoe div 100 + doy
      in era * 146097 + doe - 719468)"

definition daysInMonth :: "int \<Rightarrow> int \<Rightarrow> int" where
  "daysInMonth y m =
     (if m = 2 then (if y mod 4 = 0 \<and> (y mod 100 \<noteq> 0 \<or> y mod 400 = 0) then 29 else 28)
      else if m = 4 \<or> m = 6 \<or> m = 9 \<or> m = 11 then 30 else 31)"

definition isoDateTime :: "string \<Rightarrow> int option" where
  "isoDateTime str =
     (if length str = 10 \<and> str ! 4 = CHR ''-'' \<and> str ! 7 = CHR ''-''
      then (case (digitsVal 0 (take 4 str), digitsVal 0 (take 2 (drop 5 str)),
                  digitsVal 0 (drop 8 str)) of
              (Some y, Some m, Some d) \<Rightarrow>
                if 1 \<le> m \<and> m \<le> 12 \<and> 1 \<le> d \<and> d \<le> daysInMonth y m
                then Some (86400000 * daysFromCivil y m d) else None
            | _ \<Rightarrow> None)
      else None)"

definition blankInvoice :: invoice where
  "blankInvoice =
     \<lparr> invoice_id = None, userId = None, fileName = None, storageUrl = None, status = None,
       invoiceNumber = None, invoiceDate = None, dueDate = None, vendorName = None,
       supplierName = None, supplierRuc = None, totalAmount = None, taxAmount = None,
       subtotal = None, currency = None, lineItems = None, ocrEngine = None,
       ocrConfidence = None, fieldFeedback = None, uploadedAt = None, processedAt = None,
       errorMessage = None \<rparr>"

definition invoiceA :: invoice where
  "invoiceA = blankInvoice
     \<lparr> invoice_id := Some ''A'', userId := Some ''u1'', fileName := Some ''a.pdf'',
       status := Some Processed, vendorName := Some ''Acme'',
       fieldFeedback := Some [''vendorName'' \<mapsto>
         \<lparr>fb_vote = Upvote, fb_userId = ''u1'', fb_timestamp = ''2024-01-03''\<rparr>],
       uploadedAt := Some ''2024-01-01'', processedAt := Some ''2024-01-02'' \<rparr>"

definition invoiceB :: invoice where
  "invoiceB = blankInvoice
     \<lparr> invoice_id := Some ''B'', userId := Some ''u1'', fileName := Some ''b.pdf'',
       status := Some Processing, uploadedAt := Some ''2024-03-01'' \<rparr>"

definition invoiceC :: invoice where
  "invoiceC = blankInvoice
     \<lparr> invoice_id := Some ''C'', userId := Some ''u1'', fileName := Some ''c.pdf'',
       status := Some Failed, uploadedAt := Some ''2024-02-01'',
       processedAt := Some ''2024-02-02'', errorMessage := Some ''OCR failed'' \<rparr>"

text \<open>What the server echoes for invoice A after a vote on \<open>totalAmount\<close>.\<close>

definition echoA :: invoice where
  "echoA = blankInvoice
     \<lparr> invoice_id := Some ''A'', status := Some Processed, totalAmount := Some 118,
       fieldFeedback := Some [''totalAmount'' \<mapsto>
         \<lparr>fb_vote = Downvote, fb_userId = ''u1'', fb_timestamp = ''2024-01-04''\<rparr>],
       processedAt := Some ''2024-01-02'' \<rparr>"

text \<open>A cached copy of A from a time when the server reported it as failed.\<close>

definition failedA :: invoice where
  "failedA = blankInvoice
     \<lparr> invoice_id := Some ''A'', status := Some Failed,
       uploadedAt := Some ''2024-01-01'', processedAt := Some ''2024-01-02'',
       errorMessage := Some ''OCR failed'' \<rparr>"

definition demoStore :: store where
  "demoStore =
     \<lparr> invoices = [invoiceA, invoiceB, invoiceC], currentInvoice = Some invoiceA,
       loading = False, error = Some ''Failed to fetch invoices'', total = 3, requests = [] \<rparr>"

definition demoAck :: invoice_response where
  "demoAck =
     \<lparr> ack_invoiceId = ''D'', ack_fileName = ''d.pdf'', ack_status = ''processing'',
       ack_message = None \<rparr>"

text \<open>A gateway that answers every call; the feedback answer is a parameter.\<close>

definition demoGateway :: "invoice option \<Rightarrow> gateway" where
  "demoGateway answer =
     \<lparr> svc_uploadInvoice = (\<lambda>f. Inr demoAck),
       svc_getInvoices = (\<lambda>q. Inr \<lparr>resp_invoices = [invoiceB, invoiceC], resp_total = 2\<rparr>),
       svc_getInvoiceById = (\<lambda>i. Inr invoiceB),
       svc_getDownloadUrl = (\<lambda>i. Inr ''https://storage.example/b.pdf''),
       svc_submitFieldFeedback = (\<lambda>i r. Inr answer) \<rparr>"

definition offlineGateway :: gateway where
  "offlineGateway =
     \<lparr> svc_uploadInvoice = (\<lambda>f. Inl (Thrown (Some ''Network Error''))),
       svc_getInvoices = (\<lambda>q. Inl (Thrown (Some ''Network Error''))),
       svc_getInvoiceById = (\<lambda>i. Inl (Thrown (Some ''Network Error''))),
       svc_getDownloadUrl = (\<lambda>i. Inl (Thrown (Some ''Network Error''))),
       svc_submitFieldFeedback = (\<lambda>i r. Inl (Thrown (Some ''Network Error''))) \<rparr>"

text \<open>A store whose copies of A are stale: they still say \<open>failed\<close>.\<close>

definition staleStore :: store where
  "staleStore =
     \<lparr> invoices = [failedA, invoiceB], currentInvoice = Some failedA,
       loading = False, error = None, total = 2, requests = [] \<rparr>"

section \<open>Actions around their await\<close>

text \<open>
  Between the request of an action and its answer other actions may run to completion.
  The \<open>_resume\<close> of an action is the code after its \<open>await\<close>: it takes the answer and the
  store as it is when the answer arrives. \<open>uploadInvoice\<close> awaits twice: after the upload
  it either finishes with the error or stands at the await of the nested \<open>fetchInvoices\<close>,
  and \<open>uploadInvoice_refreshed\<close> is the code after that second await.
\<close>

definition fetchInvoices_resume ::
  "js_error + invoice_list_response \<Rightarrow> store \<Rightarrow> (js_error + unit) \<times> store" where
  "fetchInvoices_resume answer t =
     (case answer of
        Inr response \<Rightarrow>
          (Inr (), t\<lparr>invoices := resp_invoices response, total := resp_total response,
                      loading := False\<rparr>)
      | Inl err \<Rightarrow>
          (Inl err, t\<lparr>error := Some (messageOr err ''Failed to fetch invoices''),
                       loading := False\<rparr>))"

definition uploadInvoice_resume ::
  "js_error + invoice_response \<Rightarrow> store \<Rightarrow> (js_error \<times> store) + (invoice_response \<times> store)"
  where
  "uploadInvoice_resume answer t =
     (case answer of
        Inl err \<Rightarrow>
          Inl (err, t\<lparr>error := Some (messageOr err ''Failed to upload invoice''),
                       loading := False\<rparr>)
      | Inr response \<Rightarrow> Inr (response, fetchInvoices_pending None t))"

definition uploadInvoice_refreshed ::
  "invoice_response \<Rightarrow> js_error + invoice_list_response \<Rightarrow> store
     \<Rightarrow> (js_error + invoice_response) \<times> store" where
  "uploadInvoice_refreshed response answer t =
     (case fetchInvoices_resume answer t of
        (Inl err, t2) \<Rightarrow>
          (Inl err, t2\<lparr>error := Some (messageOr err ''Failed to upload invoice''),
                        loading := False\<rparr>)
      | (Inr u, t2) \<Rightarrow> (Inr response, t2\<lparr>loading := False\<rparr>))"

definition fetchInvoiceDetail_resume ::
  "js_error + invoice \<Rightarrow> store \<Rightarrow> (js_error + invoice) \<times> store" where
  "fetchInvoiceDetail_resume answer t =
     (case answer of
        Inr fetched \<Rightarrow> (Inr fetched, t\<lparr>currentInvoice := Some fetched, loading := False\<rparr>)
      | Inl err \<Rightarrow>
          (Inl err, t\<lparr>error := Some (messageOr err ''Failed to fetch invoice details''),
                       loading := False\<rparr>))"

definition getDownloadUrl_resume ::
  "js_error + string \<Rightarrow> store \<Rightarrow> (js_error + string) \<times> store" where
  "getDownloadUrl_resume answer t =
     (case answer of
        Inr url \<Rightarrow> (Inr url, t\<lparr>loading := False\<rparr>)
      | Inl err \<Rightarrow>
          (Inl err, t\<lparr>error := Some (messageOr err ''Failed to get download URL''),
                       loading := False\<rparr>))"

definition submitFieldFeedback_resume ::
  "string \<Rightarrow> js_error + invoice option \<Rightarrow> store \<Rightarrow> (js_error + feedback_response) \<times> store"
  where
  "submitFieldFeedback_resume invoiceId answer t =
     (case answer of
        Inl err \<Rightarrow> (Inl err, t\<lparr>error := Some (messageOr err ''Failed to submit feedback'')\<rparr>)
      | Inr r \<Rightarrow>
          if invalidResponse r
          then (let err = Thrown (Some ''Invalid response from server'') in
                (Inl err, t\<lparr>error := Some (messageOr err ''Failed to submit feedback'')\<rparr>))
          else (let updatedInvoice = the r in
                (Inr \<lparr>success = True, fb_invoice = updatedInvoice\<rparr>,
                 updateInList invoiceId updatedInvoice
                   (updateCurrent invoiceId updatedInvoice t))))"

section \<open>Detail component (components/invoices/InvoiceDetail.vue)\<close>

text \<open>
  The refs of the component that the feedback handler reads and writes, and its
  \<open>invoiceId\<close> prop. Its \<open>invoice\<close> is the store's \<open>currentInvoice\<close>. \<open>handleFeedback\<close>
  returns at once when a vote is in flight or no invoice is loaded; otherwise it runs the
  store action with the prop's id, swallows a thrown error, and lowers \<open>feedbackLoading\<close>.
\<close>

record detail_component =
  props_invoiceId :: string
  downloadLoading :: bool
  feedbackLoading :: bool

definition handleFeedback ::
  "gateway \<Rightarrow> string \<Rightarrow> feedback_vote \<Rightarrow> detail_component \<times> store \<Rightarrow> detail_component \<times> store"
  where
  "handleFeedback gw fname v cs =
     (case cs of (c, s) \<Rightarrow>
        if feedbackLoading c \<or> currentInvoice s = None then (c, s)
        else (case submitFieldFeedback gw (props_invoiceId c) fname v s of
                (result, s') \<Rightarrow> (c\<lparr>feedbackLoading := False\<rparr>, s')))"

definition demoComponent :: detail_component where
  "demoComponent = \<lparr>props_invoiceId = ''A'', downloadLoading = False, feedbackLoading = False\<rparr>"

section \<open>Basic facts about the actions\<close>

lemmas pending_defs = fetchInvoices_pending_def uploadInvoice_pending_def
  fetchInvoiceDetail_pending_def getDownloadUrl_pending_def submitFieldFeedback_pending_def
  dispatch_def beginAction_def

lemma messageOr_nonempty: "fallback \<noteq> [] \<Longrightarrow> messageOr err fallback \<noteq> []"
  by (simp add: messageOr_def split: option.split)

lemma findIndex_None: "findIndex p xs = None \<longleftrightarrow> (\<forall>x\<in>set xs. \<not> p x)"
  by (induction xs) auto

lemma findIndex_Some:
  "findIndex p xs = Some k \<longleftrightarrow> k < length xs \<and> p (xs ! k) \<and> (\<forall>j<k. \<not> p (xs ! j))"
proof (induction xs arbitrary: k)
  case Nil
  then show ?case by simp
next
  case (Cons x xs)
  show ?case
  proof (cases "p x")
    case True
    then show ?thesis by (cases k) auto
  next
    case False
    show ?thesis
    proof (cases k)
      case 0
      with False show ?thesis by auto
    next
      case (Suc n)
      have "(\<forall>j<Suc n. \<not> p ((x # xs) ! j)) \<longleftrightarrow> (\<forall>j<n. \<not> p (xs ! j))"
        using False by (auto simp: less_Suc_eq_0_disj)
      with False Suc Cons.IH [of n] show ?thesis by auto
    qed
  qed
qed

lemma findIndex_first:
  assumes "k < length xs" and "p (xs ! k)" and "\<forall>j<k. \<not> p (xs ! j)"
  shows "findIndex p xs = Some k"
  using assms by (simp add: findIndex_Some)

lemma findIndex_absent:
  assumes "\<forall>x\<in>set xs. \<not> p x"
  shows "findIndex p xs = None"
  using assms by (simp add: findIndex_None)

lemma invalidResponse_Some:
  "invalidResponse (Some R) \<longleftrightarrow> invoice_id R = None \<or> invoice_id R = Some []"
  by (simp add: invalidResponse_def split: option.split)

lemma submit_accepted:
  assumes "svc_submitFieldFeedback gw invoiceId \<lparr>fieldName = fname, req_vote = v\<rparr> = Inr (Some R)"
    and "invoice_id R \<noteq> None" and "invoice_id R \<noteq> Some []"
  shows "submitFieldFeedback gw invoiceId fname v s =
     (Inr \<lparr>success = True, fb_invoice = R\<rparr>,
      updateInList invoiceId R (updateCurrent invoiceId R
        (submitFieldFeedback_pending invoiceId \<lparr>fieldName = fname, req_vote = v\<rparr> s)))"
  using assms by (simp add: submitFieldFeedback_def invalidResponse_Some Let_def)

lemma submit_rejected:
  assumes "svc_submitFieldFeedback gw invoiceId \<lparr>fieldName = fname, req_vote = v\<rparr> = Inr r"
    and "invalidResponse r"
  shows "submitFieldFeedback gw invoiceId fname v s =
     (Inl (Thrown (Some ''Invalid response from server'')),
      (submitFieldFeedback_pending invoiceId \<lparr>fieldName = fname, req_vote = v\<rparr> s)
        \<lparr>error := Some ''Invalid response from server''\<rparr>)"
  using assms by (simp add: submitFieldFeedback_def Let_def messageOr_def)

lemma submit_failed:
  assumes "svc_submitFieldFeedback gw invoiceId \<lparr>fieldName = fname, req_vote = v\<rparr> = Inl err"
  shows "submitFieldFeedback gw invoiceId fname v s =
     (Inl err,
      (submitFieldFeedback_pending invoiceId \<lparr>fieldName = fname, req_vote = v\<rparr> s)
        \<lparr>error := Some (messageOr err ''Failed to submit feedback'')\<rparr>)"
  using assms by (simp add: submitFieldFeedback_def Let_def)

lemma invoices_updateCurrent [simp]: "invoices (updateCurrent i R s) = invoices s"
  by (simp add: updateCurrent_def split: option.split)

lemma currentInvoice_updateInList [simp]: "currentInvoice (updateInList i R s) = currentInvoice s"
  by (simp add: updateInList_def split: option.split)

lemma error_updateInList [simp]: "error (updateInList i R s) = error s"
  by (simp add: updateInList_def split: option.split)

lemma error_updateCurrent [simp]: "error (updateCurrent i R s) = error s"
  by (simp add: updateCurrent_def split: option.split)

lemma requests_updateInList [simp]: "requests (updateInList i R s) = requests s"
  by (simp add: updateInList_def split: option.split)

lemma requests_updateCurrent [simp]: "requests (updateCurrent i R s) = requests s"
  by (simp add: updateCurrent_def split: option.split)

lemma invoices_pending [simp]: "invoices (submitFieldFeedback_pending i r s) = invoices s"
  by (simp add: submitFieldFeedback_pending_def dispatch_def)

lemma currentInvoice_pending [simp]:
  "currentInvoice (submitFieldFeedback_pending i r s) = currentInvoice s"
  by (simp add: submitFieldFeedback_pending_def dispatch_def)

lemma requests_pending [simp]:
  "requests (submitFieldFeedback_pending i r s) = requests s @ [Req_submitFieldFeedback i r]"
  by (simp add: submitFieldFeedback_pending_def dispatch_def)

lemma currentInvoice_updateCurrent:
  "currentInvoice (updateCurrent i R s) =
     (case currentInvoice s of
        None \<Rightarrow> None
      | Some cur \<Rightarrow> if invoice_id cur = Some i then Some (mergeUpdated cur R) else Some cur)"
  by (simp add: updateCurrent_def split: option.split)

lemma invoices_updateInList:
  "invoices (updateInList i R s) =
     (case findIndex (\<lambda>x. invoice_id x = Some i) (invoices s) of
        None \<Rightarrow> invoices s
      | Some k \<Rightarrow> (invoices s)[k := mergeUpdated (invoices s ! k) R])"
  by (simp add: updateInList_def split: option.split)

lemma fieldFeedback_mergeUpdated:
  "fieldFeedback (mergeUpdated l R)
     = Some (case fieldFeedback R of None \<Rightarrow> Map.empty | Some m \<Rightarrow> m)"
  by (simp add: mergeUpdated_def)

lemma mergeUpdated_fields:
  "invoice_id (mergeUpdated l R) = (case invoice_id R of None \<Rightarrow> invoice_id l | Some x \<Rightarrow> Some x)
 \<and> userId (mergeUpdated l R) = (case userId R of None \<Rightarrow> userId l | Some x \<Rightarrow> Some x)
 \<and> fileName (mergeUpdated l R) = (case fileName R of None \<Rightarrow> fileName l | Some x \<Rightarrow> Some x)
 \<and> storageUrl (mergeUpdated l R) = (case storageUrl R of None \<Rightarrow> storageUrl l | Some x \<Rightarrow> Some x)
 \<and> status (mergeUpdated l R) = (case status R of None \<Rightarrow> status l | Some x \<Rightarrow> Some x)
 \<and> invoiceNumber (mergeUpdated l R)
     = (case invoiceNumber R of None \<Rightarrow> invoiceNumber l | Some x \<Rightarrow> Some x)
 \<and> invoiceDate (mergeUpdated l R) = (case invoiceDate R of None \<Rightarrow> invoiceDate l | Some x \<Rightarrow> Some x)
 \<and> dueDate (mergeUpdated l R) = (case dueDate R of None \<Rightarrow> dueDate l | Some x \<Rightarrow> Some x)
 \<and> vendorName (mergeUpdated l R) = (case vendorName R of None \<Rightarrow> vendorName l | Some x \<Rightarrow> Some x)
 \<and> supplierName (mergeUpdated l R)
     = (case supplierName R of None \<Rightarrow> supplierName l | Some x \<Rightarrow> Some x)
 \<and> supplierRuc (mergeUpdated l R) = (case supplierRuc R of None \<Rightarrow> supplierRuc l | Some x \<Rightarrow> Some x)
 \<and> totalAmount (mergeUpdated l R) = (case totalAmount R of None \<Rightarrow> totalAmount l | Some x \<Rightarrow> Some x)
 \<and> taxAmount (mergeUpdated l R) = (case taxAmount R of None \<Rightarrow> taxAmount l | Some x \<Rightarrow> Some x)
 \<and> subtotal (mergeUpdated l R) = (case subtotal R of None \<Rightarrow> subtotal l | Some x \<Rightarrow> Some x)
 \<and> currency (mergeUpdated l R) = (case currency R of None \<Rightarrow> currency l | Some x \<Rightarrow> Some x)
 \<and> lineItems (mergeUpdated l R) = (case lineItems R of None \<Rightarrow> lineItems l | Some x \<Rightarrow> Some x)
 \<and> ocrEngine (mergeUpdated l R) = (case ocrEngine R of None \<Rightarrow> ocrEngine l | Some x \<Rightarrow> Some x)
 \<and> ocrConfidence (mergeUpdated l R)
     = (case ocrConfidence R of None \<Rightarrow> ocrConfidence l | Some x \<Rightarrow> Some x)
 \<and> uploadedAt (mergeUpdated l R) = (case uploadedAt R of None \<Rightarrow> uploadedAt l | Some x \<Rightarrow> Some x)
 \<and> processedAt (mergeUpdated l R) = (case processedAt R of None \<Rightarrow> processedAt l | Some x \<Rightarrow> Some x)
 \<and> errorMessage (mergeUpdated l R)
     = (case errorMessage R of None \<Rightarrow> errorMessage l | Some x \<Rightarrow> Some x)"
  by (simp add: mergeUpdated_def spread_def)

section \<open>Feedback reconciler\<close>

text \<open>
  C1. A feedback answer \<open>R\<close> that passes validation is returned to the caller, and
  (1) a current invoice whose id is the submitted one is replaced by the merge of the
  local copy and \<open>R\<close>; (2) the first list entry with that id gets the same merge, the other
  entries stay; (3) a slot that does not hold the id is left as it is. The merge is the
  shallow union: every property is \<open>R\<close>'s where \<open>R\<close> carries it and the local one otherwise,
  except \<open>fieldFeedback\<close>, which is \<open>R\<close>'s map, or the empty map when \<open>R\<close> has none, whatever
  the local map was.
\<close>

theorem feedback_replacement:
  assumes "svc_submitFieldFeedback gw invoiceId \<lparr>fieldName = fname, req_vote = v\<rparr> = Inr (Some R)"
    and "invoice_id R \<noteq> None" and "invoice_id R \<noteq> Some []"
  shows "fst (submitFieldFeedback gw invoiceId fname v s) = Inr \<lparr>success = True, fb_invoice = R\<rparr>
    \<and> (\<forall>cur. currentInvoice s = Some cur \<and> invoice_id cur = Some invoiceId \<longrightarrow>
           currentInvoice (snd (submitFieldFeedback gw invoiceId fname v s))
             = Some (mergeUpdated cur R))
    \<and> (\<forall>k. k < length (invoices s) \<and> invoice_id (invoices s ! k) = Some invoiceId
             \<and> (\<forall>j<k. invoice_id (invoices s ! j) \<noteq> Some invoiceId) \<longrightarrow>
           invoices (snd (submitFieldFeedback gw invoiceId fname v s))
             = (invoices s)[k := mergeUpdated (invoices s ! k) R])
    \<and> ((\<forall>cur. currentInvoice s = Some cur \<longrightarrow> invoice_id cur \<noteq> Some invoiceId) \<longrightarrow>
           currentInvoice (snd (submitFieldFeedback gw invoiceId fname v s)) = currentInvoice s)
    \<and> ((\<forall>x\<in>set (invoices s). invoice_id x \<noteq> Some invoiceId) \<longrightarrow>
           invoices (snd (submitFieldFeedback gw invoiceId fname v s)) = invoices s)
    \<and> (\<forall>l. fieldFeedback (mergeUpdated l R)
             = Some (case fieldFeedback R of None \<Rightarrow> Map.empty | Some m \<Rightarrow> m)
          \<and> invoice_id (mergeUpdated l R) = invoice_id R
          \<and> userId (mergeUpdated l R)
              = (case userId R of None \<Rightarrow> userId l | Some x \<Rightarrow> Some x)
          \<and> fileName (mergeUpdated l R)
              = (case fileName R of None \<Rightarrow> fileName l | Some x \<Rightarrow> Some x)
          \<and> storageUrl (mergeUpdated l R)
              = (case storageUrl R of None \<Rightarrow> storageUrl l | Some x \<Rightarrow> Some x)
          \<and> status (mergeUpdated l R)
              = (case status R of None \<Rightarrow> status l | Some x \<Rightarrow> Some x)
          \<and> invoiceNumber (mergeUpdated l R)
              = (case invoiceNumber R of None \<Rightarrow> invoiceNumber l | Some x \<Rightarrow> Some x)
          \<and> invoiceDate (mergeUpdated l R)
              = (case invoiceDate R of None \<Rightarrow> invoiceDate l | Some x \<Rightarrow> Some x)
          \<and> dueDate (mergeUpdated l R)
              = (case dueDate R of None \<Rightarrow> dueDate l | Some x \<Rightarrow> Some x)
          \<and> vendorName (mergeUpdated l R)
              = (case vendorName R of None \<Rightarrow> vendorName l | Some x \<Rightarrow> Some x)
          \<and> supplierName (mergeUpdated l R)
              = (case supplierName R of None \<Rightarrow> supplierName l | Some x \<Rightarrow> Some x)
          \<and> supplierRuc (mergeUpdated l R)
              = (case supplierRuc R of None \<Rightarrow> supplierRuc l | Some x \<Rightarrow> Some x)
          \<and> totalAmount (mergeUpdated l R)
              = (case totalAmount R of None \<Rightarrow> totalAmount l | Some x \<Rightarrow> Some x)
          \<and> taxAmount (mergeUpdated l R)
              = (case taxAmount R of None \<Rightarrow> taxAmount l | Some x \<Rightarrow> Some x)
          \<and> subtotal (mergeUpdated l R)
              = (case subtotal R of None \<Rightarrow> subtotal l | Some x \<Rightarrow> Some x)
          \<and> currency (mergeUpdated l R)
              = (case currency R of None \<Rightarrow> currency l | Some x \<Rightarrow> Some x)
          \<and> lineItems (mergeUpdated l R)
              = (case lineItems R of None \<Rightarrow> lineItems l | Some x \<Rightarrow> Some x)
          \<and> ocrEngine (mergeUpdated l R)
              = (case ocrEngine R of None \<Rightarrow> ocrEngine l | Some x \<Rightarrow> Some x)
          \<and> ocrConfidence (mergeUpdated l R)
              = (case ocrConfidence R of None \<Rightarrow> ocrConfidence l | Some x \<Rightarrow> Some x)
          \<and> uploadedAt (mergeUpdated l R)
              = (case uploadedAt R of None \<Rightarrow> uploadedAt l | Some x \<Rightarrow> Some x)
          \<and> processedAt (mergeUpdated l R)
              = (case processedAt R of None \<Rightarrow> processedAt l | Some x \<Rightarrow> Some x)
          \<and> errorMessage (mergeUpdated l R)
              = (case errorMessage R of None \<Rightarrow> errorMessage l | Some x \<Rightarrow> Some x))"
proof -
  note eq = submit_accepted [OF assms]
  have result: "fst (submitFieldFeedback gw invoiceId fname v s) = Inr \<lparr>success = True, fb_invoice = R\<rparr>"
    by (simp add: eq)
  have cur_hit: "\<forall>cur. currentInvoice s = Some cur \<and> invoice_id cur = Some invoiceId \<longrightarrow>
           currentInvoice (snd (submitFieldFeedback gw invoiceId fname v s))
             = Some (mergeUpdated cur R)"
    by (simp add: eq currentInvoice_updateCurrent)
  have list_hit: "\<forall>k. k < length (invoices s) \<and> invoice_id (invoices s ! k) = Some invoiceId
             \<and> (\<forall>j<k. invoice_id (invoices s ! j) \<noteq> Some invoiceId) \<longrightarrow>
           invoices (snd (submitFieldFeedback gw invoiceId fname v s))
             = (invoices s)[k := mergeUpdated (invoices s ! k) R]"
    by (auto simp: eq invoices_updateInList findIndex_first)
  have cur_miss: "(\<forall>cur. currentInvoice s = Some cur \<longrightarrow> invoice_id cur \<noteq> Some invoiceId) \<longrightarrow>
           currentInvoice (snd (submitFieldFeedback gw invoiceId fname v s)) = currentInvoice s"
    by (simp add: eq currentInvoice_updateCurrent split: option.split)
  have list_miss: "(\<forall>x\<in>set (invoices s). invoice_id x \<noteq> Some invoiceId) \<longrightarrow>
           invoices (snd (submitFieldFeedback gw invoiceId fname v s)) = invoices s"
    by (auto simp: eq invoices_updateInList findIndex_absent)
  have merged: "\<forall>l. fieldFeedback (mergeUpdated l R)
             = Some (case fieldFeedback R of None \<Rightarrow> Map.empty | Some m \<Rightarrow> m)
          \<and> invoice_id (mergeUpdated l R) = invoice_id R
          \<and> userId (mergeUpdated l R)
              = (case userId R of None \<Rightarrow> userId l | Some x \<Rightarrow> Some x)
          \<and> fileName (mergeUpdated l R)
              = (case fileName R of None \<Rightarrow> fileName l | Some x \<Rightarrow> Some x)
          \<and> storageUrl (mergeUpdated l R)
              = (case storageUrl R of None \<Rightarrow> storageUrl l | Some x \<Rightarrow> Some x)
          \<and> status (mergeUpdated l R)
              = (case status R of None \<Rightarrow> status l | Some x \<Rightarrow> Some x)
          \<and> invoiceNumber (mergeUpdated l R)
              = (case invoiceNumber R of None \<Rightarrow> invoiceNumber l | Some x \<Rightarrow> Some x)
          \<and> invoiceDate (mergeUpdated l R)
              = (case invoiceDate R of None \<Rightarrow> invoiceDate l | Some x \<Rightarrow> Some x)
          \<and> dueDate (mergeUpdated l R)
              = (case dueDate R of None \<Rightarrow> dueDate l | Some x \<Rightarrow> Some x)
          \<and> vendorName (mergeUpdated l R)
              = (case vendorName R of None \<Rightarrow> vendorName l | Some x \<Rightarrow> Some x)
          \<and> supplierName (mergeUpdated l R)
              = (case supplierName R of None \<Rightarrow> supplierName l | Some x \<Rightarrow> Some x)
          \<and> supplierRuc (mergeUpdated l R)
              = (case supplierRuc R of None \<Rightarrow> supplierRuc l | Some x \<Rightarrow> Some x)
          \<and> totalAmount (mergeUpdated l R)
              = (case totalAmount R of None \<Rightarrow> totalAmount l | Some x \<Rightarrow> Some x)
          \<and> taxAmount (mergeUpdated l R)
              = (case taxAmount R of None \<Rightarrow> taxAmount l | Some x \<Rightarrow> Some x)
          \<and> subtotal (mergeUpdated l R)
              = (case subtotal R of None \<Rightarrow> subtotal l | Some x \<Rightarrow> Some x)
          \<and> currency (mergeUpdated l R)
              = (case currency R of None \<Rightarrow> currency l | Some x \<Rightarrow> Some x)
          \<and> lineItems (mergeUpdated l R)
              = (case lineItems R of None \<Rightarrow> lineItems l | Some x \<Rightarrow> Some x)
          \<and> ocrEngine (mergeUpdated l R)
              = (case ocrEngine R of None \<Rightarrow> ocrEngine l | Some x \<Rightarrow> Some x)
          \<and> ocrConfidence (mergeUpdated l R)
              = (case ocrConfidence R of None \<Rightarrow> ocrConfidence l | Some x \<Rightarrow> Some x)
          \<and> uploadedAt (mergeUpdated l R)
              = (case uploadedAt R of None \<Rightarrow> uploadedAt l | Some x \<Rightarrow> Some x)
          \<and> processedAt (mergeUpdated l R)
              = (case processedAt R of None \<Rightarrow> processedAt l | Some x \<Rightarrow> Some x)
          \<and> errorMessage (mergeUpdated l R)
              = (case errorMessage R of None \<Rightarrow> errorMessage l | Some x \<Rightarrow> Some x)"
    using assms(2) by (auto simp: fieldFeedback_mergeUpdated mergeUpdated_fields)
  from result cur_hit list_hit cur_miss list_miss merged show ?thesis by blast
qed

theorem feedback_replacement_witness:
  "svc_submitFieldFeedback (demoGateway (Some echoA)) ''A''
       \<lparr>fieldName = ''totalAmount'', req_vote = Vote_downvote\<rparr> = Inr (Some echoA)
   \<and> invoice_id echoA = Some ''A''
   \<and> currentInvoice demoStore = Some invoiceA \<and> invoices demoStore ! 0 = invoiceA
   \<and> fst (submitFieldFeedback (demoGateway (Some echoA)) ''A'' ''totalAmount'' Vote_downvote demoStore)
       = Inr \<lparr>success = True, fb_invoice = echoA\<rparr>
   \<and> currentInvoice
        (snd (submitFieldFeedback (demoGateway (Some echoA)) ''A'' ''totalAmount'' Vote_downvote demoStore))
       = Some (mergeUpdated invoiceA echoA)
   \<and> invoices
        (snd (submitFieldFeedback (demoGateway (Some echoA)) ''A'' ''totalAmount'' Vote_downvote demoStore))
       = [mergeUpdated invoiceA echoA, invoiceB, invoiceC]
   \<and> fieldFeedback (mergeUpdated invoiceA echoA) = fieldFeedback echoA"
proof -
  have gw: "svc_submitFieldFeedback (demoGateway (Some echoA)) ''A''
       \<lparr>fieldName = ''totalAmount'', req_vote = Vote_downvote\<rparr> = Inr (Some echoA)"
    by (simp add: demoGateway_def)
  have id0: "invoice_id echoA = Some ''A''"
    by (simp add: echoA_def blankInvoice_def)
  have id1: "invoice_id echoA \<noteq> None" and id2: "invoice_id echoA \<noteq> Some []"
    by (simp_all add: id0)
  note t = feedback_replacement [OF gw id1 id2, of demoStore]
  have cur: "currentInvoice demoStore = Some invoiceA \<and> invoice_id invoiceA = Some ''A''"
    by (simp add: demoStore_def invoiceA_def blankInvoice_def)
  have first: "0 < length (invoices demoStore) \<and> invoice_id (invoices demoStore ! 0) = Some ''A''
      \<and> (\<forall>j<0. invoice_id (invoices demoStore ! j) \<noteq> Some ''A'')"
    by (simp add: demoStore_def invoiceA_def blankInvoice_def)
  have upd: "(invoices demoStore)[0 := mergeUpdated invoiceA echoA]
      = [mergeUpdated invoiceA echoA, invoiceB, invoiceC]"
    by (simp add: demoStore_def)
  have at0: "invoices demoStore ! 0 = invoiceA"
    by (simp add: demoStore_def)
  have fb: "fieldFeedback echoA \<noteq> None"
    by (simp add: echoA_def blankInvoice_def)
  note r1 = t [THEN conjunct1]
  note r2 = t [THEN conjunct2, THEN conjunct1, THEN spec, THEN mp, OF cur]
  note r3 = t [THEN conjunct2, THEN conjunct2, THEN conjunct1, THEN spec, THEN mp, OF first]
  note r6 = t [THEN conjunct2, THEN conjunct2, THEN conjunct2, THEN conjunct2, THEN conjunct2,
      THEN spec, THEN conjunct1, of invoiceA]
  have r6': "fieldFeedback (mergeUpdated invoiceA echoA) = fieldFeedback echoA"
    using r6 fb by (simp split: option.splits)
  show ?thesis
    using gw id0 cur at0 r1 r2 r3 r6' by (simp only: upd simp_thms)
qed

section \<open>Failure handling of the fetch\<close>

text \<open>
  C4. When the list call of the gateway fails, \<open>fetchInvoices\<close> re-raises the error to the
  caller, leaves the cached list and the total as they were, and puts a non-empty message
  into the error slot (the error's own message, or \<open>Failed to fetch invoices\<close>).
\<close>

theorem fetchInvoices_failure_keeps_list:
  assumes "svc_getInvoices gw query = Inl err"
  shows "fst (fetchInvoices gw query s) = Inl err
       \<and> invoices (snd (fetchInvoices gw query s)) = invoices s
       \<and> total (snd (fetchInvoices gw query s)) = total s
       \<and> error (snd (fetchInvoices gw query s)) = Some (messageOr err ''Failed to fetch invoices'')
       \<and> messageOr err ''Failed to fetch invoices'' \<noteq> []"
  using assms
  by (simp add: fetchInvoices_def fetchInvoices_pending_def dispatch_def beginAction_def
      messageOr_nonempty)

theorem fetchInvoices_failure_keeps_list_witness:
  "svc_getInvoices offlineGateway None = Inl (Thrown (Some ''Network Error''))
 \<and> invoices demoStore = [invoiceA, invoiceB, invoiceC]
 \<and> fst (fetchInvoices offlineGateway None demoStore) = Inl (Thrown (Some ''Network Error''))
 \<and> invoices (snd (fetchInvoices offlineGateway None demoStore)) = [invoiceA, invoiceB, invoiceC]
 \<and> total (snd (fetchInvoices offlineGateway None demoStore)) = 3
 \<and> error (snd (fetchInvoices offlineGateway None demoStore)) = Some ''Network Error''"
proof -
  have gw: "svc_getInvoices offlineGateway None = Inl (Thrown (Some ''Network Error''))"
    by (simp add: offlineGateway_def)
  have st: "invoices demoStore = [invoiceA, invoiceB, invoiceC] \<and> total demoStore = 3"
    by (simp add: demoStore_def)
  have msg: "messageOr (Thrown (Some ''Network Error'')) ''Failed to fetch invoices''
      = ''Network Error''"
    by (simp add: messageOr_def)
  show ?thesis
    using fetchInvoices_failure_keeps_list [OF gw, of demoStore] gw st msg by simp
qed

section \<open>The loading flag\<close>

text \<open>
  C7, as the code has it. The four actions that raise the loading flag lower it on every
  path, so it is false when they complete, whatever the gateway answered.
  \<open>submitFieldFeedback\<close>, \<open>clearError\<close> and \<open>clearCurrentInvoice\<close> never write the flag: it
  keeps the value it had.
\<close>

theorem loading_after_action:
  "loading (snd (fetchInvoices gw query s)) = False
 \<and> loading (snd (uploadInvoice gw f s)) = False
 \<and> loading (snd (fetchInvoiceDetail gw invoiceId s)) = False
 \<and> loading (snd (getDownloadUrl gw invoiceId s)) = False
 \<and> loading (snd (submitFieldFeedback gw invoiceId fname v s)) = loading s
 \<and> loading (clearError s) = loading s
 \<and> loading (clearCurrentInvoice s) = loading s"
  by (simp add: fetchInvoices_def uploadInvoice_def fetchInvoiceDetail_def getDownloadUrl_def
      submitFieldFeedback_def submitFieldFeedback_pending_def updateInList_def updateCurrent_def
      clearError_def clearCurrentInvoice_def dispatch_def Let_def
      split: sum.split option.split prod.split)

text \<open>
  C7 as stated fails for \<open>submitFieldFeedback\<close>: a vote that completes while a list fetch is
  still pending leaves the flag raised.
\<close>

theorem loading_after_feedback_counterexample:
  "fst (submitFieldFeedback (demoGateway (Some echoA)) ''A'' ''totalAmount'' Vote_downvote
          (fetchInvoices_pending None demoStore))
     = Inr \<lparr>success = True, fb_invoice = echoA\<rparr>
 \<and> loading (snd (submitFieldFeedback (demoGateway (Some echoA)) ''A'' ''totalAmount'' Vote_downvote
          (fetchInvoices_pending None demoStore))) = True"
proof -
  have gw: "svc_submitFieldFeedback (demoGateway (Some echoA)) ''A''
       \<lparr>fieldName = ''totalAmount'', req_vote = Vote_downvote\<rparr> = Inr (Some echoA)"
    by (simp add: demoGateway_def)
  have id1: "invoice_id echoA \<noteq> None" and id2: "invoice_id echoA \<noteq> Some []"
    by (simp_all add: echoA_def blankInvoice_def)
  have "loading (updateInList i R (updateCurrent i R (submitFieldFeedback_pending i r t))) = loading t"
    for i R r t
    by (simp add: updateInList_def updateCurrent_def submitFieldFeedback_pending_def dispatch_def
        split: option.split)
  then show ?thesis
    by (simp add: submit_accepted [OF gw id1 id2] fetchInvoices_pending_def dispatch_def
        beginAction_def)
qed

section \<open>The error slot\<close>

lemma fetchInvoices_split:
  "fetchInvoices gw query s
     = fetchInvoices_resume (svc_getInvoices gw query) (fetchInvoices_pending query s)"
  by (simp add: fetchInvoices_def fetchInvoices_resume_def Let_def)

lemma fetchInvoiceDetail_split:
  "fetchInvoiceDetail gw invoiceId s
     = fetchInvoiceDetail_resume (svc_getInvoiceById gw invoiceId)
         (fetchInvoiceDetail_pending invoiceId s)"
  by (simp add: fetchInvoiceDetail_def fetchInvoiceDetail_resume_def Let_def)

lemma getDownloadUrl_split:
  "getDownloadUrl gw invoiceId s
     = getDownloadUrl_resume (svc_getDownloadUrl gw invoiceId) (getDownloadUrl_pending invoiceId s)"
  by (simp add: getDownloadUrl_def getDownloadUrl_resume_def Let_def)

lemma submitFieldFeedback_split:
  "submitFieldFeedback gw invoiceId fname v s
     = submitFieldFeedback_resume invoiceId
         (svc_submitFieldFeedback gw invoiceId \<lparr>fieldName = fname, req_vote = v\<rparr>)
         (submitFieldFeedback_pending invoiceId \<lparr>fieldName = fname, req_vote = v\<rparr> s)"
  by (simp add: submitFieldFeedback_def submitFieldFeedback_resume_def Let_def)

lemma uploadInvoice_split:
  "uploadInvoice gw f s
     = (case uploadInvoice_resume (svc_uploadInvoice gw f) (uploadInvoice_pending f s) of
          Inl (err, t) \<Rightarrow> (Inl err, t)
        | Inr (response, t) \<Rightarrow> uploadInvoice_refreshed response (svc_getInvoices gw None) t)"
  by (simp add: uploadInvoice_def uploadInvoice_resume_def uploadInvoice_refreshed_def
      fetchInvoices_split Let_def split: sum.split)

lemma resume_keeps_error:
  "fst (fetchInvoices_resume la t) = Inr u \<Longrightarrow> error (snd (fetchInvoices_resume la t)) = error t"
  "fst (uploadInvoice_refreshed response la t) = Inr ack
     \<Longrightarrow> error (snd (uploadInvoice_refreshed response la t)) = error t"
  "fst (fetchInvoiceDetail_resume da t) = Inr d
     \<Longrightarrow> error (snd (fetchInvoiceDetail_resume da t)) = error t"
  "fst (getDownloadUrl_resume ua t) = Inr url \<Longrightarrow> error (snd (getDownloadUrl_resume ua t)) = error t"
  "fst (submitFieldFeedback_resume invoiceId fa t) = Inr r
     \<Longrightarrow> error (snd (submitFieldFeedback_resume invoiceId fa t)) = error t"
  by (auto simp: fetchInvoices_resume_def uploadInvoice_refreshed_def fetchInvoiceDetail_resume_def
      getDownloadUrl_resume_def submitFieldFeedback_resume_def Let_def
      split: sum.splits prod.splits if_splits)

text \<open>
  C10, as the code has it. Each of the five actions that call the gateway has set the
  error slot to null when it hands its request over, so a message left by an earlier
  failure is gone while the answer is still pending. The code after the await writes the
  slot only on failure: a successful completion leaves the slot as it is when the answer
  arrives. So the slot is null after a successful action that ran from request to answer
  with no other action in between; an action that fails during the await leaves its
  message there.
\<close>

theorem error_reset_before_dispatch:
  "error (fetchInvoices_pending query s) = None
 \<and> error (uploadInvoice_pending f s) = None
 \<and> error (fetchInvoiceDetail_pending invoiceId s) = None
 \<and> error (getDownloadUrl_pending invoiceId s) = None
 \<and> error (submitFieldFeedback_pending invoiceId req s) = None
 \<and> (fst (fetchInvoices gw query s) = Inr u \<longrightarrow> error (snd (fetchInvoices gw query s)) = None)
 \<and> (fst (uploadInvoice gw f s) = Inr ack \<longrightarrow> error (snd (uploadInvoice gw f s)) = None)
 \<and> (fst (fetchInvoiceDetail gw invoiceId s) = Inr d
      \<longrightarrow> error (snd (fetchInvoiceDetail gw invoiceId s)) = None)
 \<and> (fst (getDownloadUrl gw invoiceId s) = Inr url
      \<longrightarrow> error (snd (getDownloadUrl gw invoiceId s)) = None)
 \<and> (fst (submitFieldFeedback gw invoiceId fname v s) = Inr r
      \<longrightarrow> error (snd (submitFieldFeedback gw invoiceId fname v s)) = None)
 \<and> fetchInvoices gw query s
      = fetchInvoices_resume (svc_getInvoices gw query) (fetchInvoices_pending query s)
 \<and> uploadInvoice gw f s
      = (case uploadInvoice_resume (svc_uploadInvoice gw f) (uploadInvoice_pending f s) of
           Inl (err, t) \<Rightarrow> (Inl err, t)
         | Inr (response, t) \<Rightarrow> uploadInvoice_refreshed response (svc_getInvoices gw None) t)
 \<and> fetchInvoiceDetail gw invoiceId s
      = fetchInvoiceDetail_resume (svc_getInvoiceById gw invoiceId)
          (fetchInvoiceDetail_pending invoiceId s)
 \<and> getDownloadUrl gw invoiceId s
      = getDownloadUrl_resume (svc_getDownloadUrl gw invoiceId) (getDownloadUrl_pending invoiceId s)
 \<and> submitFieldFeedback gw invoiceId fname v s
      = submitFieldFeedback_resume invoiceId
          (svc_submitFieldFeedback gw invoiceId \<lparr>fieldName = fname, req_vote = v\<rparr>)
          (submitFieldFeedback_pending invoiceId \<lparr>fieldName = fname, req_vote = v\<rparr> s)
 \<and> (\<forall>response t. uploadInvoice_resume (Inr response) s = Inr (response, t) \<longrightarrow> error t = None)
 \<and> (fst (fetchInvoices_resume la s) = Inr u \<longrightarrow> error (snd (fetchInvoices_resume la s)) = error s)
 \<and> (fst (uploadInvoice_refreshed ack' la s) = Inr ack
      \<longrightarrow> error (snd (uploadInvoice_refreshed ack' la s)) = error s)
 \<and> (fst (fetchInvoiceDetail_resume da s) = Inr d
      \<longrightarrow> error (snd (fetchInvoiceDetail_resume da s)) = error s)
 \<and> (fst (getDownloadUrl_resume ua s) = Inr url
      \<longrightarrow> error (snd (getDownloadUrl_resume ua s)) = error s)
 \<and> (fst (submitFieldFeedback_resume invoiceId fa s) = Inr r
      \<longrightarrow> error (snd (submitFieldFeedback_resume invoiceId fa s)) = error s)"
proof -
  have pending: "error (fetchInvoices_pending query s) = None
      \<and> error (uploadInvoice_pending f s) = None
      \<and> error (fetchInvoiceDetail_pending invoiceId s) = None
      \<and> error (getDownloadUrl_pending invoiceId s) = None
      \<and> error (submitFieldFeedback_pending invoiceId req s) = None"
    by (simp add: pending_defs)
  have alone: "(fst (fetchInvoices gw query s) = Inr u \<longrightarrow> error (snd (fetchInvoices gw query s)) = None)
      \<and> (fst (uploadInvoice gw f s) = Inr ack \<longrightarrow> error (snd (uploadInvoice gw f s)) = None)
      \<and> (fst (fetchInvoiceDetail gw invoiceId s) = Inr d
          \<longrightarrow> error (snd (fetchInvoiceDetail gw invoiceId s)) = None)
      \<and> (fst (getDownloadUrl gw invoiceId s) = Inr url
          \<longrightarrow> error (snd (getDownloadUrl gw invoiceId s)) = None)
      \<and> (fst (submitFieldFeedback gw invoiceId fname v s) = Inr r
          \<longrightarrow> error (snd (submitFieldFeedback gw invoiceId fname v s)) = None)"
    by (simp add: pending_defs fetchInvoices_def uploadInvoice_def fetchInvoiceDetail_def
        getDownloadUrl_def submitFieldFeedback_def Let_def
        split: sum.split option.split prod.split)
  have second: "\<forall>response t. uploadInvoice_resume (Inr response) s = Inr (response, t)
      \<longrightarrow> error t = None"
    by (auto simp: uploadInvoice_resume_def pending_defs)
  have kept: "(fst (fetchInvoices_resume la s) = Inr u
          \<longrightarrow> error (snd (fetchInvoices_resume la s)) = error s)
      \<and> (fst (uploadInvoice_refreshed ack' la s) = Inr ack
          \<longrightarrow> error (snd (uploadInvoice_refreshed ack' la s)) = error s)
      \<and> (fst (fetchInvoiceDetail_resume da s) = Inr d
          \<longrightarrow> error (snd (fetchInvoiceDetail_resume da s)) = error s)
      \<and> (fst (getDownloadUrl_resume ua s) = Inr url
          \<longrightarrow> error (snd (getDownloadUrl_resume ua s)) = error s)
      \<and> (fst (submitFieldFeedback_resume invoiceId fa s) = Inr r
          \<longrightarrow> error (snd (submitFieldFeedback_resume invoiceId fa s)) = error s)"
    by (intro conjI impI resume_keeps_error)
  show ?thesis
    by (intro conjI pending [THEN conjunct1]
        pending [THEN conjunct2, THEN conjunct1]
        pending [THEN conjunct2, THEN conjunct2, THEN conjunct1]
        pending [THEN conjunct2, THEN conjunct2, THEN conjunct2, THEN conjunct1]
        pending [THEN conjunct2, THEN conjunct2, THEN conjunct2, THEN conjunct2]
        alone [THEN conjunct1]
        alone [THEN conjunct2, THEN conjunct1]
        alone [THEN conjunct2, THEN conjunct2, THEN conjunct1]
        alone [THEN conjunct2, THEN conjunct2, THEN conjunct2, THEN conjunct1]
        alone [THEN conjunct2, THEN conjunct2, THEN conjunct2, THEN conjunct2]
        fetchInvoices_split uploadInvoice_split fetchInvoiceDetail_split getDownloadUrl_split
        submitFieldFeedback_split second
        kept [THEN conjunct1]
        kept [THEN conjunct2, THEN conjunct1]
        kept [THEN conjunct2, THEN conjunct2, THEN conjunct1]
        kept [THEN conjunct2, THEN conjunct2, THEN conjunct2, THEN conjunct1]
        kept [THEN conjunct2, THEN conjunct2, THEN conjunct2, THEN conjunct2])
qed

theorem error_reset_before_dispatch_witness:
  "error demoStore = Some ''Failed to fetch invoices''
 \<and> error (fetchInvoices_pending None demoStore) = None
 \<and> error (submitFieldFeedback_pending ''A''
       \<lparr>fieldName = ''totalAmount'', req_vote = Vote_downvote\<rparr> demoStore) = None
 \<and> fst (fetchInvoices (demoGateway (Some echoA)) None demoStore) = Inr ()
 \<and> error (snd (fetchInvoices (demoGateway (Some echoA)) None demoStore)) = None
 \<and> fst (uploadInvoice (demoGateway (Some echoA)) (File ''d.pdf'' []) demoStore) = Inr demoAck
 \<and> error (snd (uploadInvoice (demoGateway (Some echoA)) (File ''d.pdf'' []) demoStore)) = None
 \<and> fst (fetchInvoiceDetail (demoGateway (Some echoA)) ''B'' demoStore) = Inr invoiceB
 \<and> error (snd (fetchInvoiceDetail (demoGateway (Some echoA)) ''B'' demoStore)) = None
 \<and> fst (getDownloadUrl (demoGateway (Some echoA)) ''B'' demoStore)
      = Inr ''https://storage.example/b.pdf''
 \<and> error (snd (getDownloadUrl (demoGateway (Some echoA)) ''B'' demoStore)) = None
 \<and> fst (submitFieldFeedback (demoGateway (Some echoA)) ''A'' ''totalAmount'' Vote_downvote demoStore)
      = Inr \<lparr>success = True, fb_invoice = echoA\<rparr>
 \<and> error (snd (submitFieldFeedback (demoGateway (Some echoA)) ''A'' ''totalAmount'' Vote_downvote
      demoStore)) = None
 \<and> fst (getDownloadUrl_resume (Inr ''https://storage.example/b.pdf'') demoStore)
      = Inr ''https://storage.example/b.pdf''
 \<and> error (snd (getDownloadUrl_resume (Inr ''https://storage.example/b.pdf'') demoStore))
      = Some ''Failed to fetch invoices''"
proof -
  have e0: "error demoStore = Some ''Failed to fetch invoices''"
    by (simp add: demoStore_def)
  have f1: "fst (fetchInvoices (demoGateway (Some echoA)) None demoStore) = Inr ()"
    by (simp add: fetchInvoices_def demoGateway_def)
  have f2: "fst (uploadInvoice (demoGateway (Some echoA)) (File ''d.pdf'' []) demoStore) = Inr demoAck"
    by (simp add: uploadInvoice_def fetchInvoices_def demoGateway_def)
  have f3: "fst (fetchInvoiceDetail (demoGateway (Some echoA)) ''B'' demoStore) = Inr invoiceB"
    by (simp add: fetchInvoiceDetail_def demoGateway_def)
  have f4: "fst (getDownloadUrl (demoGateway (Some echoA)) ''B'' demoStore)
      = Inr ''https://storage.example/b.pdf''"
    by (simp add: getDownloadUrl_def demoGateway_def)
  have gw: "svc_submitFieldFeedback (demoGateway (Some echoA)) ''A''
       \<lparr>fieldName = ''totalAmount'', req_vote = Vote_downvote\<rparr> = Inr (Some echoA)"
    by (simp add: demoGateway_def)
  have id1: "invoice_id echoA \<noteq> None" and id2: "invoice_id echoA \<noteq> Some []"
    by (simp_all add: echoA_def blankInvoice_def)
  have f5: "fst (submitFieldFeedback (demoGateway (Some echoA)) ''A'' ''totalAmount'' Vote_downvote
      demoStore) = Inr \<lparr>success = True, fb_invoice = echoA\<rparr>"
    by (simp add: submit_accepted [OF gw id1 id2])
  have f6: "fst (getDownloadUrl_resume (Inr ''https://storage.example/b.pdf'') demoStore)
      = Inr ''https://storage.example/b.pdf''"
    by (simp add: getDownloadUrl_resume_def)
  note t = error_reset_before_dispatch [where query = None and s = demoStore
      and f = "File ''d.pdf'' []" and invoiceId = "''B''" and gw = "demoGateway (Some echoA)"
      and ack = demoAck and d = invoiceB and url = "''https://storage.example/b.pdf''"
      and ua = "Inr ''https://storage.example/b.pdf''"]
  note t' = error_reset_before_dispatch [where s = demoStore and invoiceId = "''A''"
      and req = "\<lparr>fieldName = ''totalAmount'', req_vote = Vote_downvote\<rparr>"
      and gw = "demoGateway (Some echoA)" and fname = "''totalAmount''" and v = Vote_downvote
      and r = "\<lparr>success = True, fb_invoice = echoA\<rparr>"]
  note c1 = t [THEN conjunct1]
  note c5 = t' [THEN conjunct2, THEN conjunct2, THEN conjunct2, THEN conjunct2, THEN conjunct1]
  note c6 = t [THEN conjunct2, THEN conjunct2, THEN conjunct2, THEN conjunct2, THEN conjunct2, THEN conjunct1, THEN mp, OF f1]
  note c7 = t [THEN conjunct2, THEN conjunct2, THEN conjunct2, THEN conjunct2, THEN conjunct2, THEN conjunct2, THEN conjunct1, THEN mp, OF f2]
  note c8 = t [THEN conjunct2, THEN conjunct2, THEN conjunct2, THEN conjunct2, THEN conjunct2, THEN conjunct2, THEN conjunct2, THEN conjunct1, THEN mp, OF f3]
  note c9 = t [THEN conjunct2, THEN conjunct2, THEN conjunct2, THEN conjunct2, THEN conjunct2, THEN conjunct2, THEN conjunct2, THEN conjunct2, THEN conjunct1, THEN mp, OF f4]
  note c10 = t' [THEN conjunct2, THEN conjunct2, THEN conjunct2, THEN conjunct2, THEN conjunct2, THEN conjunct2, THEN conjunct2, THEN conjunct2, THEN conjunct2, THEN conjunct1, THEN mp, OF f5]
  note c20 = t [THEN conjunct2, THEN conjunct2, THEN conjunct2, THEN conjunct2, THEN conjunct2, THEN conjunct2, THEN conjunct2, THEN conjunct2, THEN conjunct2, THEN conjunct2, THEN conjunct2, THEN conjunct2, THEN conjunct2, THEN conjunct2, THEN conjunct2, THEN conjunct2, THEN conjunct2, THEN conjunct2, THEN conjunct2, THEN conjunct1, THEN mp, OF f6]
  show ?thesis
    using e0 c1 c5 f1 c6 f2 c7 f3 c8 f4 c9 f5 c10 f6 c20 by simp
qed

text \<open>
  C10 as stated fails on its second part. While \<open>getDownloadUrl\<close> awaits its answer a vote
  is submitted and fails; the download then completes successfully and the error slot
  still holds the vote's message.
\<close>

theorem error_after_success_counterexample:
  "error (getDownloadUrl_pending ''B'' demoStore) = None
 \<and> fst (submitFieldFeedback offlineGateway ''A'' ''totalAmount'' Vote_downvote
        (getDownloadUrl_pending ''B'' demoStore)) = Inl (Thrown (Some ''Network Error''))
 \<and> fst (getDownloadUrl_resume (Inr ''https://storage.example/b.pdf'')
        (snd (submitFieldFeedback offlineGateway ''A'' ''totalAmount'' Vote_downvote
           (getDownloadUrl_pending ''B'' demoStore))))
      = Inr ''https://storage.example/b.pdf''
 \<and> error (snd (getDownloadUrl_resume (Inr ''https://storage.example/b.pdf'')
        (snd (submitFieldFeedback offlineGateway ''A'' ''totalAmount'' Vote_downvote
           (getDownloadUrl_pending ''B'' demoStore)))))
      = Some ''Network Error''"
proof -
  have off: "svc_submitFieldFeedback offlineGateway ''A''
       \<lparr>fieldName = ''totalAmount'', req_vote = Vote_downvote\<rparr>
     = Inl (Thrown (Some ''Network Error''))"
    by (simp add: offlineGateway_def)
  have msg: "messageOr (Thrown (Some ''Network Error'')) ''Failed to submit feedback''
      = ''Network Error''"
    by (simp add: messageOr_def)
  show ?thesis
    by (simp add: submit_failed [OF off] msg getDownloadUrl_resume_def pending_defs)
qed

section \<open>Upload\<close>

text \<open>
  C8. \<open>uploadInvoice\<close> hands the file to the gateway first. Once the upload is acknowledged
  it asks for the list with no query, whatever the acknowledgment says, so the requests of
  the action are the upload followed by the list call; and when the refresh succeeds the
  caller gets the gateway's acknowledgment (not an Invoice) and the cache holds the
  refreshed list. A failing upload is re-raised with no refresh; a failing refresh is
  re-raised in place of the acknowledgment.
\<close>

theorem uploadInvoice_composition:
  "(svc_uploadInvoice gw f = Inl err \<longrightarrow>
      fst (uploadInvoice gw f s) = Inl err
    \<and> requests (snd (uploadInvoice gw f s)) = requests s @ [Req_uploadInvoice f])
 \<and> (svc_uploadInvoice gw f = Inr ack \<longrightarrow>
      requests (snd (uploadInvoice gw f s))
        = requests s @ [Req_uploadInvoice f, Req_getInvoices None])
 \<and> (svc_uploadInvoice gw f = Inr ack \<and> svc_getInvoices gw None = Inr response \<longrightarrow>
      fst (uploadInvoice gw f s) = Inr ack
    \<and> invoices (snd (uploadInvoice gw f s)) = resp_invoices response
    \<and> total (snd (uploadInvoice gw f s)) = resp_total response)
 \<and> (svc_uploadInvoice gw f = Inr ack \<and> svc_getInvoices gw None = Inl err \<longrightarrow>
      fst (uploadInvoice gw f s) = Inl err
    \<and> invoices (snd (uploadInvoice gw f s)) = invoices s)"
  by (simp add: pending_defs fetchInvoices_def uploadInvoice_def Let_def
      split: sum.split option.split prod.split)

theorem uploadInvoice_composition_witness:
  "svc_uploadInvoice (demoGateway None) (File ''d.pdf'' []) = Inr demoAck
 \<and> svc_getInvoices (demoGateway None) None
      = Inr \<lparr>resp_invoices = [invoiceB, invoiceC], resp_total = 2\<rparr>
 \<and> requests demoStore = []
 \<and> requests (snd (uploadInvoice (demoGateway None) (File ''d.pdf'' []) demoStore))
      = [Req_uploadInvoice (File ''d.pdf'' []), Req_getInvoices None]
 \<and> fst (uploadInvoice (demoGateway None) (File ''d.pdf'' []) demoStore) = Inr demoAck
 \<and> invoices (snd (uploadInvoice (demoGateway None) (File ''d.pdf'' []) demoStore))
      = [invoiceB, invoiceC]
 \<and> total (snd (uploadInvoice (demoGateway None) (File ''d.pdf'' []) demoStore)) = 2
 \<and> svc_uploadInvoice offlineGateway (File ''d.pdf'' []) = Inl (Thrown (Some ''Network Error''))
 \<and> fst (uploadInvoice offlineGateway (File ''d.pdf'' []) demoStore)
      = Inl (Thrown (Some ''Network Error''))
 \<and> requests (snd (uploadInvoice offlineGateway (File ''d.pdf'' []) demoStore))
      = [Req_uploadInvoice (File ''d.pdf'' [])]"
proof -
  have up: "svc_uploadInvoice (demoGateway None) (File ''d.pdf'' []) = Inr demoAck"
    by (simp add: demoGateway_def)
  have ls: "svc_getInvoices (demoGateway None) None
      = Inr \<lparr>resp_invoices = [invoiceB, invoiceC], resp_total = 2\<rparr>"
    by (simp add: demoGateway_def)
  have off: "svc_uploadInvoice offlineGateway (File ''d.pdf'' []) = Inl (Thrown (Some ''Network Error''))"
    by (simp add: offlineGateway_def)
  have rq: "requests demoStore = []"
    by (simp add: demoStore_def)
  note t = uploadInvoice_composition [where gw = "demoGateway None" and f = "File ''d.pdf'' []"
      and s = demoStore and ack = demoAck
      and response = "\<lparr>resp_invoices = [invoiceB, invoiceC], resp_total = 2\<rparr>"]
  note t2 = t [THEN conjunct2, THEN conjunct1, THEN mp, OF up]
  note t3 = t [THEN conjunct2, THEN conjunct2, THEN conjunct1, THEN mp, OF conjI [OF up ls]]
  note u = uploadInvoice_composition [where gw = offlineGateway and f = "File ''d.pdf'' []"
      and s = demoStore and err = "Thrown (Some ''Network Error'')"]
  note u1 = u [THEN conjunct1, THEN mp, OF off]
  show ?thesis
    using up ls off rq t2 t3 u1 by simp
qed

section \<open>Validation of the feedback answer\<close>

text \<open>
  C3, as the code has it. \<open>submitFieldFeedback\<close> rejects an answer exactly when the body is
  empty or its id is missing or the empty string: it then raises
  \<open>Invalid response from server\<close>, records that message, and leaves the list and the
  current invoice as they were. Any answer with a non-empty id is accepted; the id is not
  compared with the id that was submitted.
\<close>

theorem feedback_validation:
  assumes "svc_submitFieldFeedback gw invoiceId \<lparr>fieldName = fname, req_vote = v\<rparr> = Inr r"
  shows "(r = None \<or> (\<exists>R. r = Some R \<and> (invoice_id R = None \<or> invoice_id R = Some [])) \<longrightarrow>
            fst (submitFieldFeedback gw invoiceId fname v s)
              = Inl (Thrown (Some ''Invalid response from server''))
          \<and> invoices (snd (submitFieldFeedback gw invoiceId fname v s)) = invoices s
          \<and> currentInvoice (snd (submitFieldFeedback gw invoiceId fname v s)) = currentInvoice s
          \<and> error (snd (submitFieldFeedback gw invoiceId fname v s))
              = Some ''Invalid response from server'')
       \<and> (\<forall>R i. r = Some R \<and> invoice_id R = Some i \<and> i \<noteq> [] \<longrightarrow>
            fst (submitFieldFeedback gw invoiceId fname v s)
              = Inr \<lparr>success = True, fb_invoice = R\<rparr>)"
proof -
  have rejected: "fst (submitFieldFeedback gw invoiceId fname v s)
              = Inl (Thrown (Some ''Invalid response from server''))
          \<and> invoices (snd (submitFieldFeedback gw invoiceId fname v s)) = invoices s
          \<and> currentInvoice (snd (submitFieldFeedback gw invoiceId fname v s)) = currentInvoice s
          \<and> error (snd (submitFieldFeedback gw invoiceId fname v s))
              = Some ''Invalid response from server''"
    if "invalidResponse r"
    by (simp add: submit_rejected [OF assms that])
  have accepted: "fst (submitFieldFeedback gw invoiceId fname v s)
              = Inr \<lparr>success = True, fb_invoice = R\<rparr>"
    if "r = Some R" and "invoice_id R = Some i" and "i \<noteq> []" for R i
  proof -
    have "svc_submitFieldFeedback gw invoiceId \<lparr>fieldName = fname, req_vote = v\<rparr> = Inr (Some R)"
      using assms that by simp
    moreover have "invoice_id R \<noteq> None" and "invoice_id R \<noteq> Some []"
      using that by simp_all
    ultimately show ?thesis
      by (simp add: submit_accepted)
  qed
  have inv: "invalidResponse r"
    if "r = None \<or> (\<exists>R. r = Some R \<and> (invoice_id R = None \<or> invoice_id R = Some []))"
    using that by (auto simp: invalidResponse_def)
  from rejected accepted inv show ?thesis by blast
qed

theorem feedback_validation_witness:
  "svc_submitFieldFeedback (demoGateway (Some blankInvoice)) ''A''
       \<lparr>fieldName = ''totalAmount'', req_vote = Vote_downvote\<rparr> = Inr (Some blankInvoice)
 \<and> invoice_id blankInvoice = None
 \<and> fst (submitFieldFeedback (demoGateway (Some blankInvoice)) ''A'' ''totalAmount'' Vote_downvote
        demoStore) = Inl (Thrown (Some ''Invalid response from server''))
 \<and> invoices (snd (submitFieldFeedback (demoGateway (Some blankInvoice)) ''A'' ''totalAmount''
        Vote_downvote demoStore)) = invoices demoStore
 \<and> currentInvoice (snd (submitFieldFeedback (demoGateway (Some blankInvoice)) ''A'' ''totalAmount''
        Vote_downvote demoStore)) = currentInvoice demoStore
 \<and> error (snd (submitFieldFeedback (demoGateway (Some blankInvoice)) ''A'' ''totalAmount''
        Vote_downvote demoStore)) = Some ''Invalid response from server''"
proof -
  have gw: "svc_submitFieldFeedback (demoGateway (Some blankInvoice)) ''A''
       \<lparr>fieldName = ''totalAmount'', req_vote = Vote_downvote\<rparr> = Inr (Some blankInvoice)"
    by (simp add: demoGateway_def)
  have id0: "invoice_id blankInvoice = None"
    by (simp add: blankInvoice_def)
  have bad: "Some blankInvoice = None
      \<or> (\<exists>R. Some blankInvoice = Some R \<and> (invoice_id R = None \<or> invoice_id R = Some []))"
    using id0 by simp
  note t = feedback_validation [OF gw, of demoStore, THEN conjunct1, THEN mp, OF bad]
  show ?thesis
    using gw id0 t by simp
qed

text \<open>
  C3 as stated fails where the answer carries another invoice's id: asked about A, the
  gateway answers with invoice B; the action succeeds and the current invoice, a copy of
  A, is overwritten and now carries the id B.
\<close>

theorem feedback_validation_counterexample:
  "svc_submitFieldFeedback (demoGateway (Some invoiceB)) ''A''
       \<lparr>fieldName = ''totalAmount'', req_vote = Vote_downvote\<rparr> = Inr (Some invoiceB)
 \<and> invoice_id invoiceB = Some ''B''
 \<and> currentInvoice demoStore = Some invoiceA
 \<and> invoice_id invoiceA = Some ''A''
 \<and> fst (submitFieldFeedback (demoGateway (Some invoiceB)) ''A'' ''totalAmount'' Vote_downvote
        demoStore) = Inr \<lparr>success = True, fb_invoice = invoiceB\<rparr>
 \<and> currentInvoice (snd (submitFieldFeedback (demoGateway (Some invoiceB)) ''A'' ''totalAmount''
        Vote_downvote demoStore)) = Some (mergeUpdated invoiceA invoiceB)
 \<and> invoice_id (mergeUpdated invoiceA invoiceB) = Some ''B''
 \<and> currentInvoice (snd (submitFieldFeedback (demoGateway (Some invoiceB)) ''A'' ''totalAmount''
        Vote_downvote demoStore)) \<noteq> currentInvoice demoStore"
proof -
  have gw: "svc_submitFieldFeedback (demoGateway (Some invoiceB)) ''A''
       \<lparr>fieldName = ''totalAmount'', req_vote = Vote_downvote\<rparr> = Inr (Some invoiceB)"
    by (simp add: demoGateway_def)
  have idB: "invoice_id invoiceB = Some ''B''"
    by (simp add: invoiceB_def blankInvoice_def)
  have idA: "invoice_id invoiceA = Some ''A''"
    by (simp add: invoiceA_def blankInvoice_def)
  have id1: "invoice_id invoiceB \<noteq> None" and id2: "invoice_id invoiceB \<noteq> Some []"
    by (simp_all add: idB)
  have cur: "currentInvoice demoStore = Some invoiceA"
    by (simp add: demoStore_def)
  have merged: "invoice_id (mergeUpdated invoiceA invoiceB) = Some ''B''"
    by (simp add: mergeUpdated_def spread_def idB)
  have differ: "mergeUpdated invoiceA invoiceB \<noteq> invoiceA"
  proof
    assume "mergeUpdated invoiceA invoiceB = invoiceA"
    then have "invoice_id (mergeUpdated invoiceA invoiceB) = invoice_id invoiceA" by simp
    then show False by (simp add: merged idA)
  qed
  show ?thesis
    using gw idB idA cur merged differ
    by (simp add: submit_accepted [OF gw id1 id2] currentInvoice_updateCurrent)
qed

section \<open>Feedback against a list entry\<close>

lemma mergeUpdated_entry:
  assumes "invoice_id R = Some i"
  shows "fieldFeedback (mergeUpdated l R)
    = Some (case fieldFeedback R of None \<Rightarrow> Map.empty | Some m \<Rightarrow> m)
  \<and> fieldFeedback (mergeUpdated l R)
      = Some (case fieldFeedback R of None \<Rightarrow> Map.empty | Some m \<Rightarrow> m)
  \<and> invoice_id (mergeUpdated l R) = Some i
  \<and> userId (mergeUpdated l R)
      = (case userId R of None \<Rightarrow> userId (l) | Some x \<Rightarrow> Some x)
  \<and> fileName (mergeUpdated l R)
      = (case fileName R of None \<Rightarrow> fileName (l) | Some x \<Rightarrow> Some x)
  \<and> storageUrl (mergeUpdated l R)
      = (case storageUrl R of None \<Rightarrow> storageUrl (l) | Some x \<Rightarrow> Some x)
  \<and> status (mergeUpdated l R)
      = (case status R of None \<Rightarrow> status (l) | Some x \<Rightarrow> Some x)
  \<and> invoiceNumber (mergeUpdated l R)
      = (case invoiceNumber R of None \<Rightarrow> invoiceNumber (l) | Some x \<Rightarrow> Some x)
  \<and> invoiceDate (mergeUpdated l R)
      = (case invoiceDate R of None \<Rightarrow> invoiceDate (l) | Some x \<Rightarrow> Some x)
  \<and> dueDate (mergeUpdated l R)
      = (case dueDate R of None \<Rightarrow> dueDate (l) | Some x \<Rightarrow> Some x)
  \<and> vendorName (mergeUpdated l R)
      = (case vendorName R of None \<Rightarrow> vendorName (l) | Some x \<Rightarrow> Some x)
  \<and> supplierName (mergeUpdated l R)
      = (case supplierName R of None \<Rightarrow> supplierName (l) | Some x \<Rightarrow> Some x)
  \<and> supplierRuc (mergeUpdated l R)
      = (case supplierRuc R of None \<Rightarrow> supplierRuc (l) | Some x \<Rightarrow> Some x)
  \<and> totalAmount (mergeUpdated l R)
      = (case totalAmount R of None \<Rightarrow> totalAmount (l) | Some x \<Rightarrow> Some x)
  \<and> taxAmount (mergeUpdated l R)
      = (case taxAmount R of None \<Rightarrow> taxAmount (l) | Some x \<Rightarrow> Some x)
  \<and> subtotal (mergeUpdated l R)
      = (case subtotal R of None \<Rightarrow> subtotal (l) | Some x \<Rightarrow> Some x)
  \<and> currency (mergeUpdated l R)
      = (case currency R of None \<Rightarrow> currency (l) | Some x \<Rightarrow> Some x)
  \<and> lineItems (mergeUpdated l R)
      = (case lineItems R of None \<Rightarrow> lineItems (l) | Some x \<Rightarrow> Some x)
  \<and> ocrEngine (mergeUpdated l R)
      = (case ocrEngine R of None \<Rightarrow> ocrEngine (l) | Some x \<Rightarrow> Some x)
  \<and> ocrConfidence (mergeUpdated l R)
      = (case ocrConfidence R of None \<Rightarrow> ocrConfidence (l) | Some x \<Rightarrow> Some x)
  \<and> uploadedAt (mergeUpdated l R)
      = (case uploadedAt R of None \<Rightarrow> uploadedAt (l) | Some x \<Rightarrow> Some x)
  \<and> processedAt (mergeUpdated l R)
      = (case processedAt R of None \<Rightarrow> processedAt (l) | Some x \<Rightarrow> Some x)
  \<and> errorMessage (mergeUpdated l R)
      = (case errorMessage R of None \<Rightarrow> errorMessage (l) | Some x \<Rightarrow> Some x)"
  using assms by (simp add: mergeUpdated_def spread_def)

text \<open>
  C5. The store action \<open>submitFieldFeedback\<close> has no path that returns before the gateway
  call: on every store it hands exactly one feedback request to the gateway. In
  particular, when the current invoice is empty or holds another id and the list has an
  entry with the id, a validated answer \<open>R\<close> is merged into that entry: afterwards the
  entry carries \<open>R\<close>'s feedback map (the empty map when \<open>R\<close> has none), \<open>R\<close>'s id, and for
  every other property \<open>R\<close>'s value where \<open>R\<close> carries it and its own old value otherwise;
  the other entries and the current slot stay as they were. The early return that the
  source does have is in the detail component's \<open>handleFeedback\<close>, before the store action
  is reached: it makes no call when a vote is in flight or no current invoice is loaded,
  and otherwise runs the store action with the component's invoice id.
\<close>

theorem feedback_on_list_entry:
  "requests (snd (submitFieldFeedback gw invoiceId fname v s))
     = requests s @ [Req_submitFieldFeedback invoiceId \<lparr>fieldName = fname, req_vote = v\<rparr>]
 \<and> ((currentInvoice s = None \<or> (\<exists>cur. currentInvoice s = Some cur \<and> invoice_id cur \<noteq> Some invoiceId))
      \<and> k < length (invoices s) \<and> invoice_id (invoices s ! k) = Some invoiceId
      \<and> (\<forall>j<k. invoice_id (invoices s ! j) \<noteq> Some invoiceId)
      \<and> svc_submitFieldFeedback gw invoiceId \<lparr>fieldName = fname, req_vote = v\<rparr> = Inr (Some R)
      \<and> invoice_id R = Some i \<and> i \<noteq> [] \<longrightarrow>
        fst (submitFieldFeedback gw invoiceId fname v s) = Inr \<lparr>success = True, fb_invoice = R\<rparr>
      \<and> invoices (snd (submitFieldFeedback gw invoiceId fname v s))
          = (invoices s)[k := mergeUpdated (invoices s ! k) R]
      \<and> length (invoices (snd (submitFieldFeedback gw invoiceId fname v s))) = length (invoices s)
      \<and> (\<forall>j. j < length (invoices s) \<and> j \<noteq> k \<longrightarrow>
            invoices (snd (submitFieldFeedback gw invoiceId fname v s)) ! j = invoices s ! j)
      \<and> currentInvoice (snd (submitFieldFeedback gw invoiceId fname v s)) = currentInvoice s
      \<and> fieldFeedback (invoices (snd (submitFieldFeedback gw invoiceId fname v s)) ! k)
          = Some (case fieldFeedback R of None \<Rightarrow> Map.empty | Some m \<Rightarrow> m)
      \<and> invoice_id (invoices (snd (submitFieldFeedback gw invoiceId fname v s)) ! k) = Some i
      \<and> userId (invoices (snd (submitFieldFeedback gw invoiceId fname v s)) ! k)
          = (case userId R of None \<Rightarrow> userId (invoices s ! k) | Some x \<Rightarrow> Some x)
      \<and> fileName (invoices (snd (submitFieldFeedback gw invoiceId fname v s)) ! k)
          = (case fileName R of None \<Rightarrow> fileName (invoices s ! k) | Some x \<Rightarrow> Some x)
      \<and> storageUrl (invoices (snd (submitFieldFeedback gw invoiceId fname v s)) ! k)
          = (case storageUrl R of None \<Rightarrow> storageUrl (invoices s ! k) | Some x \<Rightarrow> Some x)
      \<and> status (invoices (snd (submitFieldFeedback gw invoiceId fname v s)) ! k)
          = (case status R of None \<Rightarrow> status (invoices s ! k) | Some x \<Rightarrow> Some x)
      \<and> invoiceNumber (invoices (snd (submitFieldFeedback gw invoiceId fname v s)) ! k)
          = (case invoiceNumber R of None \<Rightarrow> invoiceNumber (invoices s ! k) | Some x \<Rightarrow> Some x)
      \<and> invoiceDate (invoices (snd (submitFieldFeedback gw invoiceId fname v s)) ! k)
          = (case invoiceDate R of None \<Rightarrow> invoiceDate (invoices s ! k) | Some x \<Rightarrow> Some x)
      \<and> dueDate (invoices (snd (submitFieldFeedback gw invoiceId fname v s)) ! k)
          = (case dueDate R of None \<Rightarrow> dueDate (invoices s ! k) | Some x \<Rightarrow> Some x)
      \<and> vendorName (invoices (snd (submitFieldFeedback gw invoiceId fname v s)) ! k)
          = (case vendorName R of None \<Rightarrow> vendorName (invoices s ! k) | Some x \<Rightarrow> Some x)
      \<and> supplierName (invoices (snd (submitFieldFeedback gw invoiceId fname v s)) ! k)
          = (case supplierName R of None \<Rightarrow> supplierName (invoices s ! k) | Some x \<Rightarrow> Some x)
      \<and> supplierRuc (invoices (snd (submitFieldFeedback gw invoiceId fname v s)) ! k)
          = (case supplierRuc R of None \<Rightarrow> supplierRuc (invoices s ! k) | Some x \<Rightarrow> Some x)
      \<and> totalAmount (invoices (snd (submitFieldFeedback gw invoiceId fname v s)) ! k)
          = (case totalAmount R of None \<Rightarrow> totalAmount (invoices s ! k) | Some x \<Rightarrow> Some x)
      \<and> taxAmount (invoices (snd (submitFieldFeedback gw invoiceId fname v s)) ! k)
          = (case taxAmount R of None \<Rightarrow> taxAmount (invoices s ! k) | Some x \<Rightarrow> Some x)
      \<and> subtotal (invoices (snd (submitFieldFeedback gw invoiceId fname v s)) ! k)
          = (case subtotal R of None \<Rightarrow> subtotal (invoices s ! k) | Some x \<Rightarrow> Some x)
      \<and> currency (invoices (snd (submitFieldFeedback gw invoiceId fname v s)) ! k)
          = (case currency R of None \<Rightarrow> currency (invoices s ! k) | Some x \<Rightarrow> Some x)
      \<and> lineItems (invoices (snd (submitFieldFeedback gw invoiceId fname v s)) ! k)
          = (case lineItems R of None \<Rightarrow> lineItems (invoices s ! k) | Some x \<Rightarrow> Some x)
      \<and> ocrEngine (invoices (snd (submitFieldFeedback gw invoiceId fname v s)) ! k)
          = (case ocrEngine R of None \<Rightarrow> ocrEngine (invoices s ! k) | Some x \<Rightarrow> Some x)
      \<and> ocrConfidence (invoices (snd (submitFieldFeedback gw invoiceId fname v s)) ! k)
          = (case ocrConfidence R of None \<Rightarrow> ocrConfidence (invoices s ! k) | Some x \<Rightarrow> Some x)
      \<and> uploadedAt (invoices (snd (submitFieldFeedback gw invoiceId fname v s)) ! k)
          = (case uploadedAt R of None \<Rightarrow> uploadedAt (invoices s ! k) | Some x \<Rightarrow> Some x)
      \<and> processedAt (invoices (snd (submitFieldFeedback gw invoiceId fname v s)) ! k)
          = (case processedAt R of None \<Rightarrow> processedAt (invoices s ! k) | Some x \<Rightarrow> Some x)
      \<and> errorMessage (invoices (snd (submitFieldFeedback gw invoiceId fname v s)) ! k)
          = (case errorMessage R of None \<Rightarrow> errorMessage (invoices s ! k) | Some x \<Rightarrow> Some x))
 \<and> (feedbackLoading c \<or> currentInvoice s = None \<longrightarrow> handleFeedback gw fname v (c, s) = (c, s))
 \<and> (\<not> feedbackLoading c \<and> currentInvoice s \<noteq> None \<longrightarrow>
        snd (handleFeedback gw fname v (c, s))
          = snd (submitFieldFeedback gw (props_invoiceId c) fname v s)
      \<and> requests (snd (handleFeedback gw fname v (c, s)))
          = requests s @ [Req_submitFieldFeedback (props_invoiceId c)
                            \<lparr>fieldName = fname, req_vote = v\<rparr>]
      \<and> feedbackLoading (fst (handleFeedback gw fname v (c, s))) = False)"
proof -
  have dispatched: "requests (snd (submitFieldFeedback gw invoiceId fname v s))
     = requests s @ [Req_submitFieldFeedback invoiceId \<lparr>fieldName = fname, req_vote = v\<rparr>]"
    for invoiceId
    by (simp add: submitFieldFeedback_def Let_def split: sum.split)
  have merged: "fst (submitFieldFeedback gw invoiceId fname v s) = Inr \<lparr>success = True, fb_invoice = R\<rparr>
      \<and> invoices (snd (submitFieldFeedback gw invoiceId fname v s))
          = (invoices s)[k := mergeUpdated (invoices s ! k) R]
      \<and> length (invoices (snd (submitFieldFeedback gw invoiceId fname v s))) = length (invoices s)
      \<and> (\<forall>j. j < length (invoices s) \<and> j \<noteq> k \<longrightarrow>
            invoices (snd (submitFieldFeedback gw invoiceId fname v s)) ! j = invoices s ! j)
      \<and> currentInvoice (snd (submitFieldFeedback gw invoiceId fname v s)) = currentInvoice s
      \<and> fieldFeedback (invoices (snd (submitFieldFeedback gw invoiceId fname v s)) ! k)
          = Some (case fieldFeedback R of None \<Rightarrow> Map.empty | Some m \<Rightarrow> m)
      \<and> invoice_id (invoices (snd (submitFieldFeedback gw invoiceId fname v s)) ! k) = Some i
      \<and> userId (invoices (snd (submitFieldFeedback gw invoiceId fname v s)) ! k)
          = (case userId R of None \<Rightarrow> userId (invoices s ! k) | Some x \<Rightarrow> Some x)
      \<and> fileName (invoices (snd (submitFieldFeedback gw invoiceId fname v s)) ! k)
          = (case fileName R of None \<Rightarrow> fileName (invoices s ! k) | Some x \<Rightarrow> Some x)
      \<and> storageUrl (invoices (snd (submitFieldFeedback gw invoiceId fname v s)) ! k)
          = (case storageUrl R of None \<Rightarrow> storageUrl (invoices s ! k) | Some x \<Rightarrow> Some x)
      \<and> status (invoices (snd (submitFieldFeedback gw invoiceId fname v s)) ! k)
          = (case status R of None \<Rightarrow> status (invoices s ! k) | Some x \<Rightarrow> Some x)
      \<and> invoiceNumber (invoices (snd (submitFieldFeedback gw invoiceId fname v s)) ! k)
          = (case invoiceNumber R of None \<Rightarrow> invoiceNumber (invoices s ! k) | Some x \<Rightarrow> Some x)
      \<and> invoiceDate (invoices (snd (submitFieldFeedback gw invoiceId fname v s)) ! k)
          = (case invoiceDate R of None \<Rightarrow> invoiceDate (invoices s ! k) | Some x \<Rightarrow> Some x)
      \<and> dueDate (invoices (snd (submitFieldFeedback gw invoiceId fname v s)) ! k)
          = (case dueDate R of None \<Rightarrow> dueDate (invoices s ! k) | Some x \<Rightarrow> Some x)
      \<and> vendorName (invoices (snd (submitFieldFeedback gw invoiceId fname v s)) ! k)
          = (case vendorName R of None \<Rightarrow> vendorName (invoices s ! k) | Some x \<Rightarrow> Some x)
      \<and> supplierName (invoices (snd (submitFieldFeedback gw invoiceId fname v s)) ! k)
          = (case supplierName R of None \<Rightarrow> supplierName (invoices s ! k) | Some x \<Rightarrow> Some x)
      \<and> supplierRuc (invoices (snd (submitFieldFeedback gw invoiceId fname v s)) ! k)
          = (case supplierRuc R of None \<Rightarrow> supplierRuc (invoices s ! k) | Some x \<Rightarrow> Some x)
      \<and> totalAmount (invoices (snd (submitFieldFeedback gw invoiceId fname v s)) ! k)
          = (case totalAmount R of None \<Rightarrow> totalAmount (invoices s ! k) | Some x \<Rightarrow> Some x)
      \<and> taxAmount (invoices (snd (submitFieldFeedback gw invoiceId fname v s)) ! k)
          = (case taxAmount R of None \<Rightarrow> taxAmount (invoices s ! k) | Some x \<Rightarrow> Some x)
      \<and> subtotal (invoices (snd (submitFieldFeedback gw invoiceId fname v s)) ! k)
          = (case subtotal R of None \<Rightarrow> subtotal (invoices s ! k) | Some x \<Rightarrow> Some x)
      \<and> currency (invoices (snd (submitFieldFeedback gw invoiceId fname v s)) ! k)
          = (case currency R of None \<Rightarrow> currency (invoices s ! k) | Some x \<Rightarrow> Some x)
      \<and> lineItems (invoices (snd (submitFieldFeedback gw invoiceId fname v s)) ! k)
          = (case lineItems R of None \<Rightarrow> lineItems (invoices s ! k) | Some x \<Rightarrow> Some x)
      \<and> ocrEngine (invoices (snd (submitFieldFeedback gw invoiceId fname v s)) ! k)
          = (case ocrEngine R of None \<Rightarrow> ocrEngine (invoices s ! k) | Some x \<Rightarrow> Some x)
      \<and> ocrConfidence (invoices (snd (submitFieldFeedback gw invoiceId fname v s)) ! k)
          = (case ocrConfidence R of None \<Rightarrow> ocrConfidence (invoices s ! k) | Some x \<Rightarrow> Some x)
      \<and> uploadedAt (invoices (snd (submitFieldFeedback gw invoiceId fname v s)) ! k)
          = (case uploadedAt R of None \<Rightarrow> uploadedAt (invoices s ! k) | Some x \<Rightarrow> Some x)
      \<and> processedAt (invoices (snd (submitFieldFeedback gw invoiceId fname v s)) ! k)
          = (case processedAt R of None \<Rightarrow> processedAt (invoices s ! k) | Some x \<Rightarrow> Some x)
      \<and> errorMessage (invoices (snd (submitFieldFeedback gw invoiceId fname v s)) ! k)
          = (case errorMessage R of None \<Rightarrow> errorMessage (invoices s ! k) | Some x \<Rightarrow> Some x)"
    if cur: "currentInvoice s = None \<or> (\<exists>cur. currentInvoice s = Some cur \<and> invoice_id cur \<noteq> Some invoiceId)"
      and k: "k < length (invoices s)" "invoice_id (invoices s ! k) = Some invoiceId"
        "\<forall>j<k. invoice_id (invoices s ! j) \<noteq> Some invoiceId"
      and gw: "svc_submitFieldFeedback gw invoiceId \<lparr>fieldName = fname, req_vote = v\<rparr> = Inr (Some R)"
      and R: "invoice_id R = Some i" "i \<noteq> []"
  proof -
    have id1: "invoice_id R \<noteq> None" and id2: "invoice_id R \<noteq> Some []"
      using R by simp_all
    note eq = submit_accepted [OF gw id1 id2]
    have found: "findIndex (\<lambda>x. invoice_id x = Some invoiceId) (invoices s) = Some k"
      using k by (simp add: findIndex_first)
    have keep: "currentInvoice (updateCurrent invoiceId R t) = currentInvoice t"
      if "currentInvoice t = currentInvoice s" for t
      using cur that by (auto simp: currentInvoice_updateCurrent)
    have res: "fst (submitFieldFeedback gw invoiceId fname v s) = Inr \<lparr>success = True, fb_invoice = R\<rparr>"
      by (simp add: eq)
    have lst: "invoices (snd (submitFieldFeedback gw invoiceId fname v s))
          = (invoices s)[k := mergeUpdated (invoices s ! k) R]"
      by (simp add: eq invoices_updateInList found)
    have cur': "currentInvoice (snd (submitFieldFeedback gw invoiceId fname v s)) = currentInvoice s"
      by (simp add: eq keep)
    have len: "length (invoices (snd (submitFieldFeedback gw invoiceId fname v s))) = length (invoices s)"
      by (simp add: lst)
    have others: "\<forall>j. j < length (invoices s) \<and> j \<noteq> k \<longrightarrow>
            invoices (snd (submitFieldFeedback gw invoiceId fname v s)) ! j = invoices s ! j"
      by (simp add: lst)
    have at_k: "invoices (snd (submitFieldFeedback gw invoiceId fname v s)) ! k
        = mergeUpdated (invoices s ! k) R"
      using k(1) by (simp add: lst)
    note entry = mergeUpdated_entry [OF R(1), of "invoices s ! k", folded at_k]
    show ?thesis
      by (intro conjI res lst len others cur' entry [THEN conjunct1]
          entry [THEN conjunct2, THEN conjunct1]
          entry [THEN conjunct2, THEN conjunct2, THEN conjunct1]
          entry [THEN conjunct2, THEN conjunct2, THEN conjunct2, THEN conjunct1]
          entry [THEN conjunct2, THEN conjunct2, THEN conjunct2, THEN conjunct2, THEN conjunct1]
          entry [THEN conjunct2, THEN conjunct2, THEN conjunct2, THEN conjunct2, THEN conjunct2, THEN conjunct1]
          entry [THEN conjunct2, THEN conjunct2, THEN conjunct2, THEN conjunct2, THEN conjunct2, THEN conjunct2, THEN conjunct1]
          entry [THEN conjunct2, THEN conjunct2, THEN conjunct2, THEN conjunct2, THEN conjunct2, THEN conjunct2, THEN conjunct2, THEN conjunct1]
          entry [THEN conjunct2, THEN conjunct2, THEN conjunct2, THEN conjunct2, THEN conjunct2, THEN conjunct2, THEN conjunct2, THEN conjunct2, THEN conjunct1]
          entry [THEN conjunct2, THEN conjunct2, THEN conjunct2, THEN conjunct2, THEN conjunct2, THEN conjunct2, THEN conjunct2, THEN conjunct2, THEN conjunct2, THEN conjunct1]
          entry [THEN conjunct2, THEN conjunct2, THEN conjunct2, THEN conjunct2, THEN conjunct2, THEN conjunct2, THEN conjunct2, THEN conjunct2, THEN conjunct2, THEN conjunct2, THEN conjunct1]
          entry [THEN conjunct2, THEN conjunct2, THEN conjunct2, THEN conjunct2, THEN conjunct2, THEN conjunct2, THEN conjunct2, THEN conjunct2, THEN conjunct2, THEN conjunct2, THEN conjunct2, THEN conjunct1]
          entry [THEN conjunct2, THEN conjunct2, THEN conjunct2, THEN conjunct2, THEN conjunct2, THEN conjunct2, THEN conjunct2, THEN conjunct2, THEN conjunct2, THEN conjunct2, THEN conjunct2, THEN conjunct2, THEN conjunct1]
          entry [THEN conjunct2, THEN conjunct2, THEN conjunct2, THEN conjunct2, THEN conjunct2, THEN conjunct2, THEN conjunct2, THEN conjunct2, THEN conjunct2, THEN conjunct2, THEN conjunct2, THEN conjunct2, THEN conjunct2, THEN conjunct1]
          entry [THEN conjunct2, THEN conjunct2, THEN conjunct2, THEN conjunct2, THEN conjunct2, THEN conjunct2, THEN conjunct2, THEN conjunct2, THEN conjunct2, THEN conjunct2, THEN conjunct2, THEN conjunct2, THEN conjunct2, THEN conjunct2, THEN conjunct1]
          entry [THEN conjunct2, THEN conjunct2, THEN conjunct2, THEN conjunct2, THEN conjunct2, THEN conjunct2, THEN conjunct2, THEN conjunct2, THEN conjunct2, THEN conjunct2, THEN conjunct2, THEN conjunct2, THEN conjunct2, THEN conjunct2, THEN conjunct2, THEN conjunct1]
          entry [THEN conjunct2, THEN conjunct2, THEN conjunct2, THEN conjunct2, THEN conjunct2, THEN conjunct2, THEN conjunct2, THEN conjunct2, THEN conjunct2, THEN conjunct2, THEN conjunct2, THEN conjunct2, THEN conjunct2, THEN conjunct2, THEN conjunct2, THEN conjunct2, THEN conjunct1]
          entry [THEN conjunct2, THEN conjunct2, THEN conjunct2, THEN conjunct2, THEN conjunct2, THEN conjunct2, THEN conjunct2, THEN conjunct2, THEN conjunct2, THEN conjunct2, THEN conjunct2, THEN conjunct2, THEN conjunct2, THEN conjunct2, THEN conjunct2, THEN conjunct2, THEN conjunct2, THEN conjunct1]
          entry [THEN conjunct2, THEN conjunct2, THEN conjunct2, THEN conjunct2, THEN conjunct2, THEN conjunct2, THEN conjunct2, THEN conjunct2, THEN conjunct2, THEN conjunct2, THEN conjunct2, THEN conjunct2, THEN conjunct2, THEN conjunct2, THEN conjunct2, THEN conjunct2, THEN conjunct2, THEN conjunct2, THEN conjunct1]
          entry [THEN conjunct2, THEN conjunct2, THEN conjunct2, THEN conjunct2, THEN conjunct2, THEN conjunct2, THEN conjunct2, THEN conjunct2, THEN conjunct2, THEN conjunct2, THEN conjunct2, THEN conjunct2, THEN conjunct2, THEN conjunct2, THEN conjunct2, THEN conjunct2, THEN conjunct2, THEN conjunct2, THEN conjunct2, THEN conjunct1]
          entry [THEN conjunct2, THEN conjunct2, THEN conjunct2, THEN conjunct2, THEN conjunct2, THEN conjunct2, THEN conjunct2, THEN conjunct2, THEN conjunct2, THEN conjunct2, THEN conjunct2, THEN conjunct2, THEN conjunct2, THEN conjunct2, THEN conjunct2, THEN conjunct2, THEN conjunct2, THEN conjunct2, THEN conjunct2, THEN conjunct2, THEN conjunct1]
          entry [THEN conjunct2, THEN conjunct2, THEN conjunct2, THEN conjunct2, THEN conjunct2, THEN conjunct2, THEN conjunct2, THEN conjunct2, THEN conjunct2, THEN conjunct2, THEN conjunct2, THEN conjunct2, THEN conjunct2, THEN conjunct2, THEN conjunct2, THEN conjunct2, THEN conjunct2, THEN conjunct2, THEN conjunct2, THEN conjunct2, THEN conjunct2]
          )
  qed
  have blocked: "handleFeedback gw fname v (c, s) = (c, s)"
    if "feedbackLoading c \<or> currentInvoice s = None"
    using that by (auto simp: handleFeedback_def)
  have passed: "snd (handleFeedback gw fname v (c, s))
          = snd (submitFieldFeedback gw (props_invoiceId c) fname v s)
      \<and> requests (snd (handleFeedback gw fname v (c, s)))
          = requests s @ [Req_submitFieldFeedback (props_invoiceId c)
                            \<lparr>fieldName = fname, req_vote = v\<rparr>]
      \<and> feedbackLoading (fst (handleFeedback gw fname v (c, s))) = False"
    if "\<not> feedbackLoading c \<and> currentInvoice s \<noteq> None"
  proof -
    have "handleFeedback gw fname v (c, s)
        = (c\<lparr>feedbackLoading := False\<rparr>, snd (submitFieldFeedback gw (props_invoiceId c) fname v s))"
      using that by (auto simp: handleFeedback_def split: prod.splits)
    then show ?thesis
      by (simp add: dispatched)
  qed
  from dispatched [of invoiceId] merged blocked passed show ?thesis
    by (intro conjI impI) blast+
qed

theorem feedback_on_list_entry_witness:
  "currentInvoice (clearCurrentInvoice demoStore) = None
 \<and> invoices (clearCurrentInvoice demoStore) = [invoiceA, invoiceB, invoiceC]
 \<and> invoice_id invoiceA = Some ''A''
 \<and> svc_submitFieldFeedback (demoGateway (Some echoA)) ''A''
       \<lparr>fieldName = ''totalAmount'', req_vote = Vote_downvote\<rparr> = Inr (Some echoA)
 \<and> invoice_id echoA = Some ''A''
 \<and> requests (snd (submitFieldFeedback (demoGateway (Some echoA)) ''A'' ''totalAmount'' Vote_downvote
        (clearCurrentInvoice demoStore)))
      = [Req_submitFieldFeedback ''A'' \<lparr>fieldName = ''totalAmount'', req_vote = Vote_downvote\<rparr>]
 \<and> fst (submitFieldFeedback (demoGateway (Some echoA)) ''A'' ''totalAmount'' Vote_downvote
        (clearCurrentInvoice demoStore)) = Inr \<lparr>success = True, fb_invoice = echoA\<rparr>
 \<and> invoices (snd (submitFieldFeedback (demoGateway (Some echoA)) ''A'' ''totalAmount'' Vote_downvote
        (clearCurrentInvoice demoStore))) = [mergeUpdated invoiceA echoA, invoiceB, invoiceC]
 \<and> invoices (snd (submitFieldFeedback (demoGateway (Some echoA)) ''A'' ''totalAmount'' Vote_downvote
        (clearCurrentInvoice demoStore))) ! 1 = invoiceB
 \<and> fieldFeedback (invoices (snd (submitFieldFeedback (demoGateway (Some echoA)) ''A'' ''totalAmount'' Vote_downvote
        (clearCurrentInvoice demoStore))) ! 0) = fieldFeedback echoA
 \<and> fieldFeedback (invoices (snd (submitFieldFeedback (demoGateway (Some echoA)) ''A'' ''totalAmount'' Vote_downvote
        (clearCurrentInvoice demoStore))) ! 0) \<noteq> fieldFeedback invoiceA
 \<and> invoice_id (invoices (snd (submitFieldFeedback (demoGateway (Some echoA)) ''A'' ''totalAmount'' Vote_downvote
        (clearCurrentInvoice demoStore))) ! 0) = Some ''A''
 \<and> status (invoices (snd (submitFieldFeedback (demoGateway (Some echoA)) ''A'' ''totalAmount'' Vote_downvote
        (clearCurrentInvoice demoStore))) ! 0) = Some Processed
 \<and> vendorName (invoices (snd (submitFieldFeedback (demoGateway (Some echoA)) ''A'' ''totalAmount'' Vote_downvote
        (clearCurrentInvoice demoStore))) ! 0) = Some ''Acme''
 \<and> totalAmount (invoices (snd (submitFieldFeedback (demoGateway (Some echoA)) ''A'' ''totalAmount'' Vote_downvote
        (clearCurrentInvoice demoStore))) ! 0) = Some 118
 \<and> currentInvoice (snd (submitFieldFeedback (demoGateway (Some echoA)) ''A'' ''totalAmount'' Vote_downvote
        (clearCurrentInvoice demoStore))) = None
 \<and> handleFeedback (demoGateway (Some echoA)) ''totalAmount'' Vote_downvote
      (demoComponent, clearCurrentInvoice demoStore) = (demoComponent, clearCurrentInvoice demoStore)
 \<and> requests (snd (handleFeedback (demoGateway (Some echoA)) ''totalAmount'' Vote_downvote
      (demoComponent, demoStore)))
      = [Req_submitFieldFeedback ''A'' \<lparr>fieldName = ''totalAmount'', req_vote = Vote_downvote\<rparr>]"
proof -
  have st: "currentInvoice (clearCurrentInvoice demoStore) = None"
    "invoices (clearCurrentInvoice demoStore) = [invoiceA, invoiceB, invoiceC]"
    "requests (clearCurrentInvoice demoStore) = []"
    by (simp_all add: clearCurrentInvoice_def demoStore_def)
  have idA: "invoice_id invoiceA = Some ''A''"
    by (simp add: invoiceA_def blankInvoice_def)
  have idR: "invoice_id echoA = Some ''A''"
    by (simp add: echoA_def blankInvoice_def)
  have gw: "svc_submitFieldFeedback (demoGateway (Some echoA)) ''A''
       \<lparr>fieldName = ''totalAmount'', req_vote = Vote_downvote\<rparr> = Inr (Some echoA)"
    by (simp add: demoGateway_def)
  have vals: "status echoA = Some Processed" "vendorName echoA = None"
    "vendorName invoiceA = Some ''Acme''" "totalAmount echoA = Some 118"
    by (simp_all add: echoA_def invoiceA_def blankInvoice_def)
  have fbR: "fieldFeedback echoA = Some [''totalAmount'' \<mapsto>
         \<lparr>fb_vote = Downvote, fb_userId = ''u1'', fb_timestamp = ''2024-01-04''\<rparr>]"
    by (simp add: echoA_def blankInvoice_def)
  have fbA: "fieldFeedback invoiceA = Some [''vendorName'' \<mapsto>
         \<lparr>fb_vote = Upvote, fb_userId = ''u1'', fb_timestamp = ''2024-01-03''\<rparr>]"
    by (simp add: invoiceA_def blankInvoice_def)
  have differ: "fieldFeedback echoA \<noteq> fieldFeedback invoiceA"
  proof
    assume "fieldFeedback echoA = fieldFeedback invoiceA"
    then have "the (fieldFeedback echoA) ''vendorName'' = the (fieldFeedback invoiceA) ''vendorName''"
      by simp
    then show False by (simp add: fbR fbA)
  qed
  note t = feedback_on_list_entry [where gw = "demoGateway (Some echoA)" and invoiceId = "''A''"
      and fname = "''totalAmount''" and v = Vote_downvote and s = "clearCurrentInvoice demoStore"
      and k = 0 and R = echoA and i = "''A''" and c = demoComponent]
  have pre: "(currentInvoice (clearCurrentInvoice demoStore) = None
        \<or> (\<exists>cur. currentInvoice (clearCurrentInvoice demoStore) = Some cur
              \<and> invoice_id cur \<noteq> Some ''A''))
      \<and> 0 < length (invoices (clearCurrentInvoice demoStore))
      \<and> invoice_id (invoices (clearCurrentInvoice demoStore) ! 0) = Some ''A''
      \<and> (\<forall>j<0. invoice_id (invoices (clearCurrentInvoice demoStore) ! j) \<noteq> Some ''A'')
      \<and> svc_submitFieldFeedback (demoGateway (Some echoA)) ''A''
           \<lparr>fieldName = ''totalAmount'', req_vote = Vote_downvote\<rparr> = Inr (Some echoA)
      \<and> invoice_id echoA = Some ''A'' \<and> ''A'' \<noteq> []"
    using st idA idR gw by simp
  note t1 = t [THEN conjunct1]
  note m = t [THEN conjunct2, THEN conjunct1, THEN mp, OF pre]
  note m_res = m [THEN conjunct1]
  note m_lst = m [THEN conjunct2, THEN conjunct1]
  note m_oth = m [THEN conjunct2, THEN conjunct2, THEN conjunct2, THEN conjunct1, THEN spec, of 1]
  note m_cur = m [THEN conjunct2, THEN conjunct2, THEN conjunct2, THEN conjunct2, THEN conjunct1]
  note m_fb = m [THEN conjunct2, THEN conjunct2, THEN conjunct2, THEN conjunct2, THEN conjunct2, THEN conjunct1]
  note m_id = m [THEN conjunct2, THEN conjunct2, THEN conjunct2, THEN conjunct2, THEN conjunct2, THEN conjunct2, THEN conjunct1]
  note m_status = m [THEN conjunct2, THEN conjunct2, THEN conjunct2, THEN conjunct2, THEN conjunct2, THEN conjunct2, THEN conjunct2, THEN conjunct2, THEN conjunct2, THEN conjunct2, THEN conjunct1]
  note m_vendor = m [THEN conjunct2, THEN conjunct2, THEN conjunct2, THEN conjunct2, THEN conjunct2, THEN conjunct2, THEN conjunct2, THEN conjunct2, THEN conjunct2, THEN conjunct2, THEN conjunct2, THEN conjunct2, THEN conjunct2, THEN conjunct2, THEN conjunct1]
  note m_total = m [THEN conjunct2, THEN conjunct2, THEN conjunct2, THEN conjunct2, THEN conjunct2, THEN conjunct2, THEN conjunct2, THEN conjunct2, THEN conjunct2, THEN conjunct2, THEN conjunct2, THEN conjunct2, THEN conjunct2, THEN conjunct2, THEN conjunct2, THEN conjunct2, THEN conjunct2, THEN conjunct1]
  have blocked: "feedbackLoading demoComponent \<or> currentInvoice (clearCurrentInvoice demoStore) = None"
    using st by simp
  note h1 = t [THEN conjunct2, THEN conjunct2, THEN conjunct1, THEN mp, OF blocked]
  note u = feedback_on_list_entry [where gw = "demoGateway (Some echoA)"
      and fname = "''totalAmount''" and v = Vote_downvote and s = demoStore and c = demoComponent]
  have open_: "\<not> feedbackLoading demoComponent \<and> currentInvoice demoStore \<noteq> None"
    by (simp add: demoComponent_def demoStore_def)
  note h2 = u [THEN conjunct2, THEN conjunct2, THEN conjunct2, THEN mp, OF open_,
      THEN conjunct2, THEN conjunct1]
  have rq0: "requests demoStore = []" "props_invoiceId demoComponent = ''A''"
    by (simp_all add: demoStore_def demoComponent_def)
  have l1: "invoices (snd (submitFieldFeedback (demoGateway (Some echoA)) ''A'' ''totalAmount'' Vote_downvote
        (clearCurrentInvoice demoStore))) = [mergeUpdated invoiceA echoA, invoiceB, invoiceC]"
    using m_lst by (simp add: st)
  have l2: "invoices (snd (submitFieldFeedback (demoGateway (Some echoA)) ''A'' ''totalAmount'' Vote_downvote
        (clearCurrentInvoice demoStore))) ! 1 = invoiceB"
    using m_oth by (simp add: st)
  have e_fb: "fieldFeedback (invoices (snd (submitFieldFeedback (demoGateway (Some echoA)) ''A'' ''totalAmount'' Vote_downvote
        (clearCurrentInvoice demoStore))) ! 0) = fieldFeedback echoA"
    using m_fb by (simp add: fbR)
  have e_status: "status (invoices (snd (submitFieldFeedback (demoGateway (Some echoA)) ''A'' ''totalAmount'' Vote_downvote
        (clearCurrentInvoice demoStore))) ! 0) = Some Processed"
    using m_status by (simp add: vals)
  have e_vendor: "vendorName (invoices (snd (submitFieldFeedback (demoGateway (Some echoA)) ''A'' ''totalAmount'' Vote_downvote
        (clearCurrentInvoice demoStore))) ! 0) = Some ''Acme''"
    using m_vendor by (simp add: vals st)
  have e_total: "totalAmount (invoices (snd (submitFieldFeedback (demoGateway (Some echoA)) ''A'' ''totalAmount'' Vote_downvote
        (clearCurrentInvoice demoStore))) ! 0) = Some 118"
    using m_total by (simp add: vals)
  have rq: "requests (snd (submitFieldFeedback (demoGateway (Some echoA)) ''A'' ''totalAmount'' Vote_downvote
        (clearCurrentInvoice demoStore)))
      = [Req_submitFieldFeedback ''A'' \<lparr>fieldName = ''totalAmount'', req_vote = Vote_downvote\<rparr>]"
    using t1 by (simp add: st)
  have hrq: "requests (snd (handleFeedback (demoGateway (Some echoA)) ''totalAmount'' Vote_downvote
      (demoComponent, demoStore)))
      = [Req_submitFieldFeedback ''A'' \<lparr>fieldName = ''totalAmount'', req_vote = Vote_downvote\<rparr>]"
    using h2 by (simp add: rq0)
  have cur0: "currentInvoice (snd (submitFieldFeedback (demoGateway (Some echoA)) ''A'' ''totalAmount'' Vote_downvote
        (clearCurrentInvoice demoStore))) = None"
    using m_cur by (simp add: st)
  show ?thesis
    using st(1,2) idA gw idR rq m_res l1 l2 e_fb differ m_id e_status e_vendor e_total cur0 h1 hrq
    by (simp only: simp_thms)
qed

section \<open>Agreement of the two slots\<close>

lemma submit_success:
  assumes "fst (submitFieldFeedback gw invoiceId fname v s) = Inr res"
  obtains R where
    "svc_submitFieldFeedback gw invoiceId \<lparr>fieldName = fname, req_vote = v\<rparr> = Inr (Some R)"
    "invoice_id R \<noteq> None" "invoice_id R \<noteq> Some []"
proof (cases "svc_submitFieldFeedback gw invoiceId \<lparr>fieldName = fname, req_vote = v\<rparr>")
  case (Inl err)
  with assms show ?thesis by (simp add: submit_failed)
next
  case (Inr r)
  show ?thesis
  proof (cases "invalidResponse r")
    case True
    with assms Inr show ?thesis by (simp add: submit_rejected)
  next
    case False
    then obtain R where "r = Some R" "invoice_id R \<noteq> None" "invoice_id R \<noteq> Some []"
      by (cases r) (auto simp: invalidResponse_def split: option.splits)
    with Inr that show ?thesis by simp
  qed
qed

lemma first_index_unique:
  assumes "k < length xs" "p (xs ! k)" "\<forall>j<k. \<not> p (xs ! j)"
    and "k' < length xs" "p (xs ! k')" "\<forall>j<k'. \<not> p (xs ! j)"
  shows "k = k'"
  using assms by (meson nat_neq_iff)

lemma two_hits:
  assumes "j < length xs" "k < length xs" "j \<noteq> k" "p (xs ! j)" "p (xs ! k)"
  shows "2 \<le> length (filter p xs)"
proof -
  have "{j, k} \<subseteq> {i. i < length xs \<and> p (xs ! i)}"
    using assms by simp
  then have "card {j, k} \<le> card {i. i < length xs \<and> p (xs ! i)}"
    by (intro card_mono) simp_all
  then show ?thesis
    using assms(3) by (simp add: length_filter_conv_card)
qed

text \<open>
  C2. After a successful \<open>submitFieldFeedback\<close> for an id, the current invoice and the list
  agree on the feedback of that id: if the current slot holds the id, then the list entry
  that the store finds under the id (the first one) has the same \<open>fieldFeedback\<close>; and when
  the list held at most one entry with the id, every list entry with the id agrees with
  the current invoice. Read on the store before the call: a current invoice and a list
  entry that both held the id end with identical feedback maps.
\<close>

theorem feedback_slots_agree:
  assumes "fst (submitFieldFeedback gw invoiceId fname v s) = Inr res"
  shows "(\<forall>cur k. currentInvoice (snd (submitFieldFeedback gw invoiceId fname v s)) = Some cur
            \<and> invoice_id cur = Some invoiceId
            \<and> k < length (invoices (snd (submitFieldFeedback gw invoiceId fname v s)))
            \<and> invoice_id (invoices (snd (submitFieldFeedback gw invoiceId fname v s)) ! k)
                = Some invoiceId
            \<and> (\<forall>j<k. invoice_id (invoices (snd (submitFieldFeedback gw invoiceId fname v s)) ! j)
                  \<noteq> Some invoiceId) \<longrightarrow>
            fieldFeedback (invoices (snd (submitFieldFeedback gw invoiceId fname v s)) ! k)
              = fieldFeedback cur)
       \<and> (length (filter (\<lambda>x. invoice_id x = Some invoiceId) (invoices s)) \<le> 1 \<longrightarrow>
            (\<forall>cur l. currentInvoice (snd (submitFieldFeedback gw invoiceId fname v s)) = Some cur
              \<and> invoice_id cur = Some invoiceId
              \<and> l \<in> set (invoices (snd (submitFieldFeedback gw invoiceId fname v s)))
              \<and> invoice_id l = Some invoiceId \<longrightarrow>
              fieldFeedback l = fieldFeedback cur))
       \<and> (\<forall>cur k. currentInvoice s = Some cur \<and> invoice_id cur = Some invoiceId
            \<and> k < length (invoices s) \<and> invoice_id (invoices s ! k) = Some invoiceId
            \<and> (\<forall>j<k. invoice_id (invoices s ! j) \<noteq> Some invoiceId) \<longrightarrow>
            (\<exists>cur'. currentInvoice (snd (submitFieldFeedback gw invoiceId fname v s)) = Some cur'
              \<and> fieldFeedback (invoices (snd (submitFieldFeedback gw invoiceId fname v s)) ! k)
                  = fieldFeedback cur'))"
proof -
  from assms obtain R where
    gw: "svc_submitFieldFeedback gw invoiceId \<lparr>fieldName = fname, req_vote = v\<rparr> = Inr (Some R)"
    and id1: "invoice_id R \<noteq> None" and id2: "invoice_id R \<noteq> Some []"
    by (rule submit_success)
  define s' where "s' = snd (submitFieldFeedback gw invoiceId fname v s)"
  define p where "p = (\<lambda>x::invoice. invoice_id x = Some invoiceId)"
  define F where "F = Some (case fieldFeedback R of None \<Rightarrow> Map.empty | Some m \<Rightarrow> m)"
  let ?xs = "invoices s"
  note eq = submit_accepted [OF gw id1 id2, of s]
  have cur': "currentInvoice s' =
     (case currentInvoice s of
        None \<Rightarrow> None
      | Some cur \<Rightarrow> if p cur then Some (mergeUpdated cur R) else Some cur)"
    by (simp add: s'_def eq currentInvoice_updateCurrent p_def split: option.split)
  have xs': "invoices s' =
     (case findIndex p ?xs of
        None \<Rightarrow> ?xs
      | Some k \<Rightarrow> ?xs[k := mergeUpdated (?xs ! k) R])"
    by (simp add: s'_def eq invoices_updateInList p_def split: option.split)
  have ffm: "fieldFeedback (mergeUpdated l R) = F" for l
    by (simp add: F_def fieldFeedback_mergeUpdated)
  have idm: "invoice_id (mergeUpdated l R) = invoice_id R" for l
    using id1 by (auto simp: mergeUpdated_def spread_def)
  \<comment> \<open>a current invoice that holds the id afterwards is a merge, and the answer had the id\<close>
  have cur_after: "fieldFeedback cur = F \<and> invoice_id R = Some invoiceId"
    if "currentInvoice s' = Some cur" "p cur" for cur
  proof (cases "currentInvoice s")
    case None
    with that cur' show ?thesis by simp
  next
    case (Some c)
    show ?thesis
    proof (cases "p c")
      case True
      with Some that cur' have "cur = mergeUpdated c R" by simp
      with that(2) show ?thesis by (simp add: ffm idm p_def)
    next
      case False
      with Some that cur' show ?thesis by simp
    qed
  qed
  \<comment> \<open>a list entry with the id afterwards, when the answer had the id\<close>
  have entry_after: "fieldFeedback (invoices s' ! k) = F"
    if R: "invoice_id R = Some invoiceId"
      and k: "k < length (invoices s')" "p (invoices s' ! k)" "\<forall>j<k. \<not> p (invoices s' ! j)" for k
  proof (cases "findIndex p ?xs")
    case None
    then have "invoices s' = ?xs" by (simp add: xs')
    with k None show ?thesis by (auto simp: findIndex_None)
  next
    case (Some k0)
    then have k0: "k0 < length ?xs" "p (?xs ! k0)" "\<forall>j<k0. \<not> p (?xs ! j)"
      by (simp_all add: findIndex_Some)
    have upd: "invoices s' = ?xs[k0 := mergeUpdated (?xs ! k0) R]"
      using Some by (simp add: xs')
    have "k0 < length (invoices s')" "p (invoices s' ! k0)" "\<forall>j<k0. \<not> p (invoices s' ! j)"
      using k0 R by (simp_all add: upd idm p_def)
    with k have "k = k0" by (intro first_index_unique [of k "invoices s'" p k0]) simp_all
    then show ?thesis using k0 by (simp add: upd ffm)
  qed
  have part1: "\<forall>cur k. currentInvoice s' = Some cur \<and> invoice_id cur = Some invoiceId
            \<and> k < length (invoices s') \<and> invoice_id (invoices s' ! k) = Some invoiceId
            \<and> (\<forall>j<k. invoice_id (invoices s' ! j) \<noteq> Some invoiceId) \<longrightarrow>
            fieldFeedback (invoices s' ! k) = fieldFeedback cur"
    using cur_after entry_after unfolding p_def by metis
  have part2: "\<forall>cur l. currentInvoice s' = Some cur \<and> invoice_id cur = Some invoiceId
              \<and> l \<in> set (invoices s') \<and> invoice_id l = Some invoiceId \<longrightarrow>
              fieldFeedback l = fieldFeedback cur"
    if uniq: "length (filter (\<lambda>x. invoice_id x = Some invoiceId) (invoices s)) \<le> 1"
  proof (intro allI impI, elim conjE)
    fix cur l
    assume c: "currentInvoice s' = Some cur" "invoice_id cur = Some invoiceId"
      and l: "l \<in> set (invoices s')" "invoice_id l = Some invoiceId"
    from cur_after [of cur] c have fc: "fieldFeedback cur = F" by (simp add: p_def)
    show "fieldFeedback l = fieldFeedback cur"
    proof (cases "findIndex p ?xs")
      case None
      then have "invoices s' = ?xs" by (simp add: xs')
      with l None show ?thesis by (auto simp: findIndex_None p_def)
    next
      case (Some k0)
      then have k0: "k0 < length ?xs" "p (?xs ! k0)"
        by (simp_all add: findIndex_Some)
      have upd: "invoices s' = ?xs[k0 := mergeUpdated (?xs ! k0) R]"
        using Some by (simp add: xs')
      from l(1) obtain j where j: "j < length (invoices s')" "l = invoices s' ! j"
        by (auto simp: in_set_conv_nth)
      show ?thesis
      proof (cases "j = k0")
        case True
        with j k0 show ?thesis by (simp add: upd ffm fc)
      next
        case False
        with j l(2) have "j < length ?xs" "p (?xs ! j)"
          by (simp_all add: upd p_def)
        from two_hits [OF this(1) k0(1) False this(2) k0(2)] uniq show ?thesis
          by (simp add: p_def)
      qed
    qed
  qed
  have part3: "\<forall>cur k. currentInvoice s = Some cur \<and> invoice_id cur = Some invoiceId
            \<and> k < length (invoices s) \<and> invoice_id (invoices s ! k) = Some invoiceId
            \<and> (\<forall>j<k. invoice_id (invoices s ! j) \<noteq> Some invoiceId) \<longrightarrow>
            (\<exists>cur'. currentInvoice s' = Some cur'
              \<and> fieldFeedback (invoices s' ! k) = fieldFeedback cur')"
  proof (intro allI impI, elim conjE)
    fix cur k
    assume c: "currentInvoice s = Some cur" "invoice_id cur = Some invoiceId"
      and k: "k < length (invoices s)" "invoice_id (invoices s ! k) = Some invoiceId"
        "\<forall>j<k. invoice_id (invoices s ! j) \<noteq> Some invoiceId"
    have "findIndex p ?xs = Some k"
      using k by (simp add: findIndex_first p_def)
    then have "invoices s' ! k = mergeUpdated (?xs ! k) R"
      using k(1) by (simp add: xs')
    moreover have "currentInvoice s' = Some (mergeUpdated cur R)"
      using c by (simp add: cur' p_def)
    ultimately show "\<exists>cur'. currentInvoice s' = Some cur'
        \<and> fieldFeedback (invoices s' ! k) = fieldFeedback cur'"
      by (simp add: ffm)
  qed
  from part1 part2 part3 show ?thesis
    unfolding s'_def by blast
qed

theorem feedback_slots_agree_witness:
  "fst (submitFieldFeedback (demoGateway (Some echoA)) ''A'' ''totalAmount'' Vote_downvote demoStore)
     = Inr \<lparr>success = True, fb_invoice = echoA\<rparr>
 \<and> currentInvoice demoStore = Some invoiceA
 \<and> invoices demoStore = [invoiceA, invoiceB, invoiceC]
 \<and> invoice_id invoiceA = Some ''A''
 \<and> length (filter (\<lambda>x. invoice_id x = Some ''A'') (invoices demoStore)) = 1
 \<and> currentInvoice
      (snd (submitFieldFeedback (demoGateway (Some echoA)) ''A'' ''totalAmount'' Vote_downvote demoStore))
     = Some (mergeUpdated invoiceA echoA)
 \<and> invoice_id (mergeUpdated invoiceA echoA) = Some ''A''
 \<and> invoice_id
      (invoices
        (snd (submitFieldFeedback (demoGateway (Some echoA)) ''A'' ''totalAmount'' Vote_downvote demoStore))
       ! 0) = Some ''A''
 \<and> fieldFeedback
      (invoices
        (snd (submitFieldFeedback (demoGateway (Some echoA)) ''A'' ''totalAmount'' Vote_downvote demoStore))
       ! 0) = fieldFeedback (mergeUpdated invoiceA echoA)
 \<and> fieldFeedback (mergeUpdated invoiceA echoA) = fieldFeedback echoA"
proof -
  define s' where
    "s' = snd (submitFieldFeedback (demoGateway (Some echoA)) ''A'' ''totalAmount'' Vote_downvote demoStore)"
  have gw: "svc_submitFieldFeedback (demoGateway (Some echoA)) ''A''
       \<lparr>fieldName = ''totalAmount'', req_vote = Vote_downvote\<rparr> = Inr (Some echoA)"
    by (simp add: demoGateway_def)
  have idR: "invoice_id echoA = Some ''A''"
    by (simp add: echoA_def blankInvoice_def)
  have id1: "invoice_id echoA \<noteq> None" and id2: "invoice_id echoA \<noteq> Some []"
    by (simp_all add: idR)
  have idA: "invoice_id invoiceA = Some ''A''"
    and idB: "invoice_id invoiceB = Some ''B''"
    and idC: "invoice_id invoiceC = Some ''C''"
    by (simp_all add: invoiceA_def invoiceB_def invoiceC_def blankInvoice_def)
  have st: "currentInvoice demoStore = Some invoiceA"
    "invoices demoStore = [invoiceA, invoiceB, invoiceC]"
    by (simp_all add: demoStore_def)
  note eq = submit_accepted [OF gw id1 id2, of demoStore]
  have ok: "fst (submitFieldFeedback (demoGateway (Some echoA)) ''A'' ''totalAmount'' Vote_downvote
      demoStore) = Inr \<lparr>success = True, fb_invoice = echoA\<rparr>"
    by (simp add: eq)
  have cur': "currentInvoice s' = Some (mergeUpdated invoiceA echoA)"
    by (simp add: s'_def eq currentInvoice_updateCurrent st idA)
  have idm: "invoice_id (mergeUpdated invoiceA echoA) = Some ''A''"
    by (simp add: mergeUpdated_def spread_def idR)
  have found: "findIndex (\<lambda>x. invoice_id x = Some ''A'') (invoices demoStore) = Some 0"
    by (simp add: st idA)
  have "invoices s' = (invoices demoStore)[0 := mergeUpdated (invoices demoStore ! 0) echoA]"
    by (simp add: s'_def eq invoices_updateInList found)
  then have xs': "invoices s' = [mergeUpdated invoiceA echoA, invoiceB, invoiceC]"
    by (simp add: st)
  have one: "length (filter (\<lambda>x. invoice_id x = Some ''A'') (invoices demoStore)) = 1"
    by (simp add: st idA idB idC)
  have fbR: "fieldFeedback (mergeUpdated invoiceA echoA) = fieldFeedback echoA"
    by (simp add: mergeUpdated_def echoA_def blankInvoice_def)
  note t = feedback_slots_agree [OF ok, folded s'_def]
  have pre1: "currentInvoice s' = Some (mergeUpdated invoiceA echoA)
      \<and> invoice_id (mergeUpdated invoiceA echoA) = Some ''A''
      \<and> 0 < length (invoices s') \<and> invoice_id (invoices s' ! 0) = Some ''A''
      \<and> (\<forall>j<0. invoice_id (invoices s' ! j) \<noteq> Some ''A'')"
    by (simp add: cur' xs' idm)
  note r1 = t [THEN conjunct1, THEN spec, THEN spec, THEN mp, OF pre1]
  have pre2: "length (filter (\<lambda>x. invoice_id x = Some ''A'') (invoices demoStore)) \<le> 1"
    by (simp add: one)
  have pre2': "currentInvoice s' = Some (mergeUpdated invoiceA echoA)
      \<and> invoice_id (mergeUpdated invoiceA echoA) = Some ''A''
      \<and> invoices s' ! 0 \<in> set (invoices s') \<and> invoice_id (invoices s' ! 0) = Some ''A''"
    by (simp add: cur' xs' idm)
  note r2 = t [THEN conjunct2, THEN conjunct1, THEN mp, OF pre2, THEN spec, THEN spec, THEN mp,
      OF pre2']
  have at0: "invoice_id (invoices s' ! 0) = Some ''A''"
    by (simp add: xs' idm)
  show ?thesis
    using ok st idA one cur' idm at0 r1 r2 fbR unfolding s'_def by simp
qed

section \<open>Status invariant\<close>

lemma invoice_ok_mergeUpdated:
  assumes "invoice_ok local" and "invoice_ok R" and "statusStep local R"
  shows "invoice_ok (mergeUpdated local R)"
proof -
  from assms(3) obtain st where st: "status R = Some st"
    and step: "status local = Some st \<or> status local = Some Processing"
    by (auto simp: statusStep_def)
  show ?thesis
  proof (cases st)
    case Processing
    with st assms(2) have "errorMessage R = None" "processedAt R = None"
      by (auto simp: invoice_ok_def)
    moreover from Processing step have "status local = Some Processing" by auto
    with assms(1) have "errorMessage local = None" "processedAt local = None"
      by (auto simp: invoice_ok_def)
    ultimately show ?thesis
      using st Processing by (simp add: invoice_ok_def mergeUpdated_def spread_def)
  next
    case Processed
    with st assms(2) have R: "errorMessage R = None" "processedAt R \<noteq> None"
      by (auto simp: invoice_ok_def)
    from Processed step have "status local \<noteq> Some Failed" by auto
    with assms(1) have "errorMessage local = None"
      by (auto simp: invoice_ok_def)
    with R show ?thesis
      using st Processed by (auto simp: invoice_ok_def mergeUpdated_def spread_def)
  next
    case Failed
    with st assms(2) have "errorMessage R \<noteq> None" "processedAt R \<noteq> None"
      by (auto simp: invoice_ok_def)
    then show ?thesis
      using st Failed by (auto simp: invoice_ok_def mergeUpdated_def spread_def)
  qed
qed

lemma list_all_update:
  assumes "list_all P xs" and "P y"
  shows "list_all P (xs[k := y])"
  using assms set_update_subset_insert [of xs k y] by (auto simp: list_all_iff)

lemma store_ok_pending:
  "store_ok (submitFieldFeedback_pending i r s) = store_ok s"
  by (simp add: store_ok_def)

lemma store_ok_error [simp]: "store_ok (s\<lparr>error := e\<rparr>) = store_ok s"
  by (simp add: store_ok_def)

lemma store_ok_merge:
  assumes "store_ok s" and "invoice_ok R"
    and "list_all (\<lambda>local. statusStep local R) (heldUnder invoiceId s)"
  shows "store_ok (updateInList invoiceId R (updateCurrent invoiceId R s))"
proof -
  have cur: "case currentInvoice (updateCurrent invoiceId R s) of
      None \<Rightarrow> True | Some c \<Rightarrow> invoice_ok c"
  proof (cases "currentInvoice s")
    case None
    then show ?thesis by (simp add: currentInvoice_updateCurrent)
  next
    case (Some c)
    show ?thesis
    proof (cases "invoice_id c = Some invoiceId")
      case True
      with Some assms(3) have "statusStep c R" by (simp add: heldUnder_def)
      moreover from Some assms(1) have "invoice_ok c" by (simp add: store_ok_def)
      ultimately have "invoice_ok (mergeUpdated c R)"
        using assms(2) by (intro invoice_ok_mergeUpdated)
      with Some True show ?thesis by (simp add: currentInvoice_updateCurrent)
    next
      case False
      with Some assms(1) show ?thesis by (simp add: currentInvoice_updateCurrent store_ok_def)
    qed
  qed
  have xs: "list_all invoice_ok (invoices s)"
    using assms(1) by (simp add: store_ok_def)
  have lst: "list_all invoice_ok (invoices (updateInList invoiceId R (updateCurrent invoiceId R s)))"
  proof (cases "findIndex (\<lambda>x. invoice_id x = Some invoiceId) (invoices s)")
    case None
    with xs show ?thesis by (simp add: invoices_updateInList)
  next
    case (Some k)
    then have k: "k < length (invoices s)" "invoice_id (invoices s ! k) = Some invoiceId"
      by (simp_all add: findIndex_Some)
    then have "invoices s ! k \<in> set (filter (\<lambda>i. invoice_id i = Some invoiceId) (invoices s))"
      by simp
    with assms(3) have "statusStep (invoices s ! k) R"
      by (simp add: heldUnder_def list_all_iff)
    moreover from xs k(1) have "invoice_ok (invoices s ! k)"
      by (simp add: list_all_length)
    ultimately have "invoice_ok (mergeUpdated (invoices s ! k) R)"
      using assms(2) by (intro invoice_ok_mergeUpdated)
    with xs Some show ?thesis
      by (simp add: invoices_updateInList list_all_update)
  qed
  from cur lst show ?thesis by (simp add: store_ok_def)
qed

lemma store_ok_fetchInvoices:
  assumes "store_ok s" and "list_answer_ok (svc_getInvoices gw query)"
  shows "store_ok (snd (fetchInvoices gw query s))"
  using assms
  by (auto simp: store_ok_def list_answer_ok_def fetchInvoices_def pending_defs Let_def
      split: sum.splits)

lemma store_ok_submitFieldFeedback:
  assumes "store_ok s"
    and "feedback_answer_ok invoiceId s
           (svc_submitFieldFeedback gw invoiceId \<lparr>fieldName = fname, req_vote = v\<rparr>)"
  shows "store_ok (snd (submitFieldFeedback gw invoiceId fname v s))"
proof (cases "svc_submitFieldFeedback gw invoiceId \<lparr>fieldName = fname, req_vote = v\<rparr>")
  case (Inl err)
  with assms(1) show ?thesis by (simp add: submit_failed store_ok_pending)
next
  case (Inr r)
  show ?thesis
  proof (cases "invalidResponse r")
    case True
    with Inr assms(1) show ?thesis by (simp add: submit_rejected store_ok_pending)
  next
    case False
    then obtain R where R: "r = Some R" "invoice_id R \<noteq> None" "invoice_id R \<noteq> Some []"
      by (cases r) (auto simp: invalidResponse_def split: option.splits)
    let ?s1 = "submitFieldFeedback_pending invoiceId \<lparr>fieldName = fname, req_vote = v\<rparr> s"
    from assms(2) Inr R have ok: "invoice_ok R"
      and steps: "list_all (\<lambda>local. statusStep local R) (heldUnder invoiceId s)"
      by (simp_all add: feedback_answer_ok_def)
    have "heldUnder invoiceId ?s1 = heldUnder invoiceId s"
      by (simp add: heldUnder_def)
    with steps have "list_all (\<lambda>local. statusStep local R) (heldUnder invoiceId ?s1)"
      by simp
    moreover have "store_ok ?s1"
      using assms(1) by (simp add: store_ok_pending)
    ultimately have "store_ok (updateInList invoiceId R (updateCurrent invoiceId R ?s1))"
      using ok by (intro store_ok_merge)
    moreover have "svc_submitFieldFeedback gw invoiceId \<lparr>fieldName = fname, req_vote = v\<rparr>
        = Inr (Some R)"
      using Inr R by simp
    ultimately show ?thesis
      using R by (simp add: submit_accepted)
  qed
qed

text \<open>
  C6, as the code has it. Every cached invoice has \<open>errorMessage\<close> exactly when it is
  \<open>failed\<close> and \<open>processedAt\<close> exactly when it is not \<open>processing\<close>, and every action of the
  store keeps this, provided the answers of the gateway satisfy it and, for the feedback
  merge, the answer reports a status that each cached copy under the id can have moved to:
  the copy's own status, or any status when the copy is still \<open>processing\<close>.
\<close>

theorem status_invariant_preserved:
  assumes "store_ok s"
  shows "(list_answer_ok (svc_getInvoices gw query) \<longrightarrow> store_ok (snd (fetchInvoices gw query s)))
       \<and> (list_answer_ok (svc_getInvoices gw None) \<longrightarrow> store_ok (snd (uploadInvoice gw f s)))
       \<and> (detail_answer_ok (svc_getInvoiceById gw invoiceId) \<longrightarrow>
            store_ok (snd (fetchInvoiceDetail gw invoiceId s)))
       \<and> store_ok (snd (getDownloadUrl gw invoiceId s))
       \<and> store_ok (clearError s)
       \<and> store_ok (clearCurrentInvoice s)
       \<and> (feedback_answer_ok invoiceId s
             (svc_submitFieldFeedback gw invoiceId \<lparr>fieldName = fname, req_vote = v\<rparr>) \<longrightarrow>
            store_ok (snd (submitFieldFeedback gw invoiceId fname v s)))"
proof -
  have fetch: "store_ok (snd (fetchInvoices gw query s))"
    if "list_answer_ok (svc_getInvoices gw query)"
    using assms that by (rule store_ok_fetchInvoices)
  have upload: "store_ok (snd (uploadInvoice gw f s))"
    if "list_answer_ok (svc_getInvoices gw None)"
  proof (cases "svc_uploadInvoice gw f")
    case (Inl err)
    with assms show ?thesis
      by (simp add: uploadInvoice_def pending_defs store_ok_def Let_def)
  next
    case (Inr ack)
    have "store_ok (uploadInvoice_pending f s)"
      using assms by (simp add: pending_defs store_ok_def)
    then have "store_ok (snd (fetchInvoices gw None (uploadInvoice_pending f s)))"
      using that by (rule store_ok_fetchInvoices)
    with Inr show ?thesis
      by (auto simp: uploadInvoice_def store_ok_def Let_def split: prod.splits sum.splits)
  qed
  have detail: "store_ok (snd (fetchInvoiceDetail gw invoiceId s))"
    if "detail_answer_ok (svc_getInvoiceById gw invoiceId)"
    using assms that
    by (auto simp: store_ok_def detail_answer_ok_def fetchInvoiceDetail_def pending_defs Let_def
        split: sum.splits)
  have url: "store_ok (snd (getDownloadUrl gw invoiceId s))"
    using assms
    by (auto simp: store_ok_def getDownloadUrl_def pending_defs Let_def split: sum.splits)
  have clear: "store_ok (clearError s)" "store_ok (clearCurrentInvoice s)"
    using assms by (simp_all add: store_ok_def clearError_def clearCurrentInvoice_def)
  have feedback: "store_ok (snd (submitFieldFeedback gw invoiceId fname v s))"
    if "feedback_answer_ok invoiceId s
          (svc_submitFieldFeedback gw invoiceId \<lparr>fieldName = fname, req_vote = v\<rparr>)"
    using assms that by (rule store_ok_submitFieldFeedback)
  from fetch upload detail url clear feedback show ?thesis by blast
qed

theorem status_invariant_preserved_witness:
  "store_ok demoStore
 \<and> list_answer_ok (svc_getInvoices (demoGateway (Some echoA)) None)
 \<and> detail_answer_ok (svc_getInvoiceById (demoGateway (Some echoA)) ''A'')
 \<and> feedback_answer_ok ''A'' demoStore
       (svc_submitFieldFeedback (demoGateway (Some echoA)) ''A''
          \<lparr>fieldName = ''totalAmount'', req_vote = Vote_downvote\<rparr>)
 \<and> store_ok (snd (fetchInvoices (demoGateway (Some echoA)) None demoStore))
 \<and> store_ok (snd (uploadInvoice (demoGateway (Some echoA)) (File ''d.pdf'' []) demoStore))
 \<and> store_ok (snd (fetchInvoiceDetail (demoGateway (Some echoA)) ''A'' demoStore))
 \<and> store_ok (snd (getDownloadUrl (demoGateway (Some echoA)) ''A'' demoStore))
 \<and> store_ok (clearError demoStore)
 \<and> store_ok (clearCurrentInvoice demoStore)
 \<and> store_ok (snd (submitFieldFeedback (demoGateway (Some echoA)) ''A'' ''totalAmount''
       Vote_downvote demoStore))"
proof -
  have okA: "invoice_ok invoiceA" and okB: "invoice_ok invoiceB" and okC: "invoice_ok invoiceC"
    and okR: "invoice_ok echoA"
    by (simp_all add: invoice_ok_def invoiceA_def invoiceB_def invoiceC_def echoA_def
        blankInvoice_def)
  have st: "store_ok demoStore"
    by (simp add: store_ok_def demoStore_def okA okB okC)
  have ls: "list_answer_ok (svc_getInvoices (demoGateway (Some echoA)) None)"
    by (simp add: list_answer_ok_def demoGateway_def okB okC)
  have dt: "detail_answer_ok (svc_getInvoiceById (demoGateway (Some echoA)) ''A'')"
    by (simp add: detail_answer_ok_def demoGateway_def okB)
  have idA: "invoice_id invoiceA = Some ''A''"
    and idB: "invoice_id invoiceB = Some ''B''"
    and idC: "invoice_id invoiceC = Some ''C''"
    by (simp_all add: invoiceA_def invoiceB_def invoiceC_def blankInvoice_def)
  have held: "heldUnder ''A'' demoStore = [invoiceA, invoiceA]"
    by (simp add: heldUnder_def demoStore_def idA idB idC)
  have step: "statusStep invoiceA echoA"
    by (simp add: statusStep_def invoiceA_def echoA_def blankInvoice_def)
  have fb: "feedback_answer_ok ''A'' demoStore
       (svc_submitFieldFeedback (demoGateway (Some echoA)) ''A''
          \<lparr>fieldName = ''totalAmount'', req_vote = Vote_downvote\<rparr>)"
    by (simp add: feedback_answer_ok_def demoGateway_def okR held step)
  note t = status_invariant_preserved [OF st, where gw = "demoGateway (Some echoA)"
      and query = None and f = "File ''d.pdf'' []" and invoiceId = "''A''"
      and fname = "''totalAmount''" and v = Vote_downvote]
  show ?thesis
    using st ls dt fb t by blast
qed

text \<open>
  C6 as stated fails for the feedback merge. The cached copies of A say \<open>failed\<close> and carry
  an error message; the gateway answers with A as \<open>processed\<close>, an answer that satisfies the
  invariant and has no \<open>errorMessage\<close> key. The merge takes the status of the answer and
  keeps the local message.
\<close>

theorem status_invariant_counterexample:
  "store_ok staleStore
 \<and> invoice_ok echoA
 \<and> svc_submitFieldFeedback (demoGateway (Some echoA)) ''A''
       \<lparr>fieldName = ''totalAmount'', req_vote = Vote_downvote\<rparr> = Inr (Some echoA)
 \<and> fst (submitFieldFeedback (demoGateway (Some echoA)) ''A'' ''totalAmount'' Vote_downvote
        staleStore) = Inr \<lparr>success = True, fb_invoice = echoA\<rparr>
 \<and> currentInvoice (snd (submitFieldFeedback (demoGateway (Some echoA)) ''A'' ''totalAmount''
        Vote_downvote staleStore)) = Some (mergeUpdated failedA echoA)
 \<and> status (mergeUpdated failedA echoA) = Some Processed
 \<and> errorMessage (mergeUpdated failedA echoA) = Some ''OCR failed''
 \<and> \<not> store_ok (snd (submitFieldFeedback (demoGateway (Some echoA)) ''A'' ''totalAmount''
        Vote_downvote staleStore))"
proof -
  have okF: "invoice_ok failedA" and okB: "invoice_ok invoiceB" and okR: "invoice_ok echoA"
    by (simp_all add: invoice_ok_def failedA_def invoiceB_def echoA_def blankInvoice_def)
  have st: "store_ok staleStore"
    by (simp add: store_ok_def staleStore_def okF okB)
  have gw: "svc_submitFieldFeedback (demoGateway (Some echoA)) ''A''
       \<lparr>fieldName = ''totalAmount'', req_vote = Vote_downvote\<rparr> = Inr (Some echoA)"
    by (simp add: demoGateway_def)
  have id1: "invoice_id echoA \<noteq> None" and id2: "invoice_id echoA \<noteq> Some []"
    by (simp_all add: echoA_def blankInvoice_def)
  have idF: "invoice_id failedA = Some ''A''"
    by (simp add: failedA_def blankInvoice_def)
  have cur: "currentInvoice staleStore = Some failedA"
    by (simp add: staleStore_def)
  note eq = submit_accepted [OF gw id1 id2, of staleStore]
  have cur': "currentInvoice (snd (submitFieldFeedback (demoGateway (Some echoA)) ''A''
        ''totalAmount'' Vote_downvote staleStore)) = Some (mergeUpdated failedA echoA)"
    by (simp add: eq currentInvoice_updateCurrent cur idF)
  have m1: "status (mergeUpdated failedA echoA) = Some Processed"
    and m2: "errorMessage (mergeUpdated failedA echoA) = Some ''OCR failed''"
    by (simp_all add: mergeUpdated_def spread_def failedA_def echoA_def blankInvoice_def)
  have bad: "\<not> invoice_ok (mergeUpdated failedA echoA)"
    by (simp add: invoice_ok_def m1 m2)
  have "\<not> store_ok (snd (submitFieldFeedback (demoGateway (Some echoA)) ''A'' ''totalAmount''
        Vote_downvote staleStore))"
    using bad by (simp add: store_ok_def cur')
  with st okR gw cur' m1 m2 show ?thesis
    by (simp add: eq)
qed

section \<open>The sorted view\<close>

lemma comesAfter_compareFn:
  assumes "timeOf getTime a = Some ta" and "timeOf getTime b = Some tb"
  shows "comesAfter (compareFn getTime a b) \<longleftrightarrow> ta < tb"
  using assms by (simp add: comesAfter_def compareFn_def)

lemma insertBy_insort_key:
  assumes "\<forall>y\<in>set (x # ys). timeOf getTime y \<noteq> None"
  shows "insertBy (compareFn getTime) x ys
       = insort_key (\<lambda>a. - the (timeOf getTime a)) x ys"
  using assms
proof (induction ys)
  case Nil
  then show ?case by simp
next
  case (Cons y ys)
  then obtain tx ty where t: "timeOf getTime x = Some tx" "timeOf getTime y = Some ty"
    by auto
  from Cons have "insertBy (compareFn getTime) x ys
       = insort_key (\<lambda>a. - the (timeOf getTime a)) x ys"
    by simp
  with t show ?case
    by (auto simp: comesAfter_compareFn [OF t])
qed

lemma sortBy_cmp_sort_key:
  assumes "\<forall>y\<in>set xs. timeOf getTime y \<noteq> None"
  shows "sortBy_cmp (compareFn getTime) xs = sort_key (\<lambda>a. - the (timeOf getTime a)) xs"
  using assms
proof (induction xs)
  case Nil
  then show ?case by (simp add: sortBy_cmp_def)
next
  case (Cons x xs)
  then have IH: "sortBy_cmp (compareFn getTime) xs
      = sort_key (\<lambda>a. - the (timeOf getTime a)) xs"
    by simp
  have "\<forall>y\<in>set (x # sort_key (\<lambda>a. - the (timeOf getTime a)) xs). timeOf getTime y \<noteq> None"
    using Cons.prems by simp
  then have "insertBy (compareFn getTime) x (sort_key (\<lambda>a. - the (timeOf getTime a)) xs)
      = insort_key (\<lambda>a. - the (timeOf getTime a)) x (sort_key (\<lambda>a. - the (timeOf getTime a)) xs)"
    by (rule insertBy_insort_key)
  moreover have "sortBy_cmp (compareFn getTime) (x # xs)
      = insertBy (compareFn getTime) x (sortBy_cmp (compareFn getTime) xs)"
    by (simp add: sortBy_cmp_def)
  ultimately show ?case
    by (simp add: IH)
qed

lemma mset_insertBy: "mset (insertBy cmp x ys) = add_mset x (mset ys)"
  by (induction ys) simp_all

lemma mset_sortBy_cmp: "mset (sortBy_cmp cmp xs) = mset xs"
  by (induction xs) (simp_all add: sortBy_cmp_def mset_insertBy)

lemma isoDateTime_samples:
  "isoDateTime ''2024-01-01'' = Some 1704067200000"
  "isoDateTime ''2024-02-01'' = Some 1706745600000"
  "isoDateTime ''2024-03-01'' = Some 1709251200000"
  by (simp_all add: isoDateTime_def digitVal_def daysFromCivil_def daysInMonth_def)

lemma sort_three:
  assumes "timeOf getTime a = Some ta" "timeOf getTime b = Some tb" "timeOf getTime c = Some tc"
    and "ta < tc" "tc < tb"
  shows "sortBy_cmp (compareFn getTime) [a, b, c] = [b, c, a]"
  using assms by (simp add: sortBy_cmp_def comesAfter_def compareFn_def)

text \<open>
  C9. \<open>sortedInvoices\<close> is always a rearrangement of the cached list. When the
  \<open>uploadedAt\<close> values of the list all parse as dates, it is that list in descending order
  of the parsed time, invoices with the same time keep their order, and when the times
  are pairwise different the result does not depend on the order in which the list
  arrived. The getter reads the store and returns a list; it has no store to write. On
  the dates 2024-01-01, 2024-03-01, 2024-02-01 it yields 03-01, 02-01, 01-01.
\<close>

theorem sortedInvoices_descending:
  "mset (sortedInvoices getTime s) = mset (invoices s)
 \<and> ((\<forall>a\<in>set (invoices s). timeOf getTime a \<noteq> None) \<longrightarrow>
       sorted_wrt (\<lambda>a b. the (timeOf getTime b) \<le> the (timeOf getTime a))
         (sortedInvoices getTime s)
     \<and> (\<forall>t. filter (\<lambda>a. timeOf getTime a = Some t) (sortedInvoices getTime s)
             = filter (\<lambda>a. timeOf getTime a = Some t) (invoices s))
     \<and> (\<forall>s2. mset (invoices s2) = mset (invoices s)
             \<and> inj_on (timeOf getTime) (set (invoices s)) \<longrightarrow>
           sortedInvoices getTime s2 = sortedInvoices getTime s))
 \<and> (\<forall>s3. map uploadedAt (invoices s3)
           = [Some ''2024-01-01'', Some ''2024-03-01'', Some ''2024-02-01''] \<longrightarrow>
       map uploadedAt (sortedInvoices isoDateTime s3)
           = [Some ''2024-03-01'', Some ''2024-02-01'', Some ''2024-01-01''])"
proof -
  have perm: "mset (sortedInvoices getTime s) = mset (invoices s)"
    by (simp add: sortedInvoices_def mset_sortBy_cmp)
  have parsed: "sorted_wrt (\<lambda>a b. the (timeOf getTime b) \<le> the (timeOf getTime a))
         (sortedInvoices getTime s)
     \<and> (\<forall>t. filter (\<lambda>a. timeOf getTime a = Some t) (sortedInvoices getTime s)
             = filter (\<lambda>a. timeOf getTime a = Some t) (invoices s))
     \<and> (\<forall>s2. mset (invoices s2) = mset (invoices s)
             \<and> inj_on (timeOf getTime) (set (invoices s)) \<longrightarrow>
           sortedInvoices getTime s2 = sortedInvoices getTime s)"
    if assms: "\<forall>a\<in>set (invoices s). timeOf getTime a \<noteq> None"
  proof -
    define f where "f = (\<lambda>a. - the (timeOf getTime a))"
    have eq: "sortedInvoices getTime s = sort_key f (invoices s)"
      using assms by (simp add: sortedInvoices_def sortBy_cmp_sort_key f_def)
    have "sorted (map f (sort_key f (invoices s)))"
      by (rule sorted_sort_key)
    then have ordered: "sorted_wrt (\<lambda>a b. the (timeOf getTime b) \<le> the (timeOf getTime a))
             (sortedInvoices getTime s)"
      by (simp add: eq sorted_map f_def)
    have stable: "filter (\<lambda>a. timeOf getTime a = Some t) (sortedInvoices getTime s)
                 = filter (\<lambda>a. timeOf getTime a = Some t) (invoices s)" for t
    proof -
      have key: "(timeOf getTime a = Some t) = (f a = - t)" if "a \<in> set (invoices s)" for a
        using assms that by (auto simp: f_def)
      have "filter (\<lambda>a. timeOf getTime a = Some t) (sort_key f (invoices s))
          = filter (\<lambda>a. f a = - t) (sort_key f (invoices s))"
        by (rule filter_cong) (simp_all add: key)
      also have "\<dots> = filter (\<lambda>a. f a = - t) (invoices s)"
        by (rule sort_key_stable)
      also have "\<dots> = filter (\<lambda>a. timeOf getTime a = Some t) (invoices s)"
        by (rule filter_cong) (simp_all add: key)
      finally show ?thesis by (simp add: eq)
    qed
    have order_free: "sortedInvoices getTime s2 = sortedInvoices getTime s"
      if m: "mset (invoices s2) = mset (invoices s)"
        and inj: "inj_on (timeOf getTime) (set (invoices s))" for s2
    proof -
      have sets: "set (invoices s2) = set (invoices s)"
        using m by (rule mset_eq_setD)
      then have "\<forall>a\<in>set (invoices s2). timeOf getTime a \<noteq> None"
        using assms by simp
      then have eq2: "sortedInvoices getTime s2 = sort_key f (invoices s2)"
        by (simp add: sortedInvoices_def sortBy_cmp_sort_key f_def)
      have inj2: "inj_on f (set (invoices s2))"
      proof (rule inj_onI)
        fix a b
        assume ab: "a \<in> set (invoices s2)" "b \<in> set (invoices s2)" "f a = f b"
        with sets assms have "timeOf getTime a \<noteq> None" "timeOf getTime b \<noteq> None"
          by simp_all
        then obtain ta tb where "timeOf getTime a = Some ta" "timeOf getTime b = Some tb"
          by blast
        with ab(3) have "timeOf getTime a = timeOf getTime b"
          by (simp add: f_def)
        with inj ab(1,2) sets show "a = b"
          by (auto dest: inj_onD)
      qed
      have m2: "mset (invoices s2) = mset (sort_key f (invoices s))"
        using m by simp
      have "sorted (map f (sort_key f (invoices s)))"
        by (rule sorted_sort_key)
      with m2 inj2 have "sort_key f (invoices s2) = sort_key f (invoices s)"
        by (rule sort_key_inj_key_eq)
      then show ?thesis by (simp add: eq eq2)
    qed
    from ordered stable order_free show ?thesis by blast
  qed
  have example: "map uploadedAt (sortedInvoices isoDateTime s3)
                 = [Some ''2024-03-01'', Some ''2024-02-01'', Some ''2024-01-01'']"
    if "map uploadedAt (invoices s3)
          = [Some ''2024-01-01'', Some ''2024-03-01'', Some ''2024-02-01'']" for s3
  proof -
    from that obtain a b c where abc: "invoices s3 = [a, b, c]"
      and up: "uploadedAt a = Some ''2024-01-01''" "uploadedAt b = Some ''2024-03-01''"
        "uploadedAt c = Some ''2024-02-01''"
      by (auto simp: map_eq_Cons_conv)
    have t: "timeOf isoDateTime a = Some 1704067200000"
      "timeOf isoDateTime b = Some 1709251200000"
      "timeOf isoDateTime c = Some 1706745600000"
      by (simp_all add: timeOf_def up isoDateTime_samples)
    have "sortBy_cmp (compareFn isoDateTime) [a, b, c] = [b, c, a]"
      by (rule sort_three [OF t]) simp_all
    then show ?thesis
      by (simp add: sortedInvoices_def abc up)
  qed
  from perm parsed example show ?thesis by blast
qed

theorem sortedInvoices_descending_witness:
  "timeOf isoDateTime invoiceA = Some 1704067200000
 \<and> timeOf isoDateTime invoiceB = Some 1709251200000
 \<and> timeOf isoDateTime invoiceC = Some 1706745600000
 \<and> invoices demoStore = [invoiceA, invoiceB, invoiceC]
 \<and> map uploadedAt (invoices demoStore)
      = [Some ''2024-01-01'', Some ''2024-03-01'', Some ''2024-02-01'']
 \<and> sorted_wrt (\<lambda>a b. the (timeOf isoDateTime b) \<le> the (timeOf isoDateTime a))
      (sortedInvoices isoDateTime demoStore)
 \<and> mset (sortedInvoices isoDateTime demoStore) = mset (invoices demoStore)
 \<and> map uploadedAt (sortedInvoices isoDateTime demoStore)
      = [Some ''2024-03-01'', Some ''2024-02-01'', Some ''2024-01-01'']
 \<and> sortedInvoices isoDateTime demoStore = [invoiceB, invoiceC, invoiceA]"
proof -
  have up: "uploadedAt invoiceA = Some ''2024-01-01''" "uploadedAt invoiceB = Some ''2024-03-01''"
    "uploadedAt invoiceC = Some ''2024-02-01''"
    by (simp_all add: invoiceA_def invoiceB_def invoiceC_def blankInvoice_def)
  have t: "timeOf isoDateTime invoiceA = Some 1704067200000"
    "timeOf isoDateTime invoiceB = Some 1709251200000"
    "timeOf isoDateTime invoiceC = Some 1706745600000"
    by (simp_all add: timeOf_def up isoDateTime_samples)
  have st: "invoices demoStore = [invoiceA, invoiceB, invoiceC]"
    by (simp add: demoStore_def)
  have parse: "\<forall>a\<in>set (invoices demoStore). timeOf isoDateTime a \<noteq> None"
    by (simp add: st t)
  have dates: "map uploadedAt (invoices demoStore)
      = [Some ''2024-01-01'', Some ''2024-03-01'', Some ''2024-02-01'']"
    by (simp add: st up)
  note r = sortedInvoices_descending [of isoDateTime demoStore]
  note r2 = r [THEN conjunct1]
  note r1 = r [THEN conjunct2, THEN conjunct1, THEN mp, OF parse, THEN conjunct1]
  note r5 = r [THEN conjunct2, THEN conjunct2, THEN spec, THEN mp, OF dates]
  have whole: "sortedInvoices isoDateTime demoStore = [invoiceB, invoiceC, invoiceA]"
    unfolding sortedInvoices_def st by (rule sort_three [OF t]) simp_all
  show ?thesis
    using t st dates r1 r2 r5 whole by simp
qed

end
